theory Spec2Isabelle
  imports Complex_Main
begin

section \<open>Rocket powered landing: model of \<open>rocket_powered_landing.py\<close>\<close>

text \<open>
  Numbers. The program computes with float64. Here a float is taken as the exact real it
  denotes and an arithmetic operation as the exact real operation; float64 rounding,
  overflow and underflow are outside the model. An entry of type \<open>real option\<close> is
  \<open>Some r\<close> when its formula has the real value \<open>r\<close>, and \<open>None\<close> when its formula
  divides by zero or takes the square root of a negative number, where numpy returns
  \<open>inf\<close> or \<open>nan\<close> (with a RuntimeWarning, not an exception). The test for zero is the
  test of the exact real divisor: a float64 divisor such as \<open>m**2\<close> can be \<open>0.0\<close> by
  underflow where the real one is not, and nothing here speaks about such inputs.

  Arrays. A 1-D array is a list. The arrays that the three dynamics functions return are
  written in the source as literal lists of rows and are modelled so. An index beyond the
  end of an array raises \<open>IndexError\<close>.
\<close>

datatype error = IndexError | ValueError | ZeroDivisionError

definition fdiv :: "real \<Rightarrow> real \<Rightarrow> real option" where
  "fdiv a b = (if b = 0 then None else Some (a / b))"

definition fsqrt :: "real \<Rightarrow> real option" where
  "fsqrt a = (if a < 0 then None else Some (sqrt a))"

subsection \<open>The dynamics and its Jacobians\<close>

definition f_func :: "real list \<Rightarrow> real list \<Rightarrow> error + real option list list" where
  "f_func x u =
    (if length x < 14 \<or> length u < 3 then Inl IndexError
     else
      let m = x ! 0; vx = x ! 4; vy = x ! 5; vz = x ! 6;
          q0 = x ! 7; q1 = x ! 8; q2 = x ! 9; q3 = x ! 10;
          wx = x ! 11; wy = x ! 12; wz = x ! 13;
          ux = u ! 0; uy = u ! 1; uz = u ! 2
      in Inr [
        [map_option (\<lambda>s. - 0.01 * s) (fsqrt (ux^2 + uy^2 + uz^2))],
        [Some vx],
        [Some vy],
        [Some vz],
        [fdiv (- 1.0 * m - ux * (2 * q2^2 + 2 * q3^2 - 1) - 2 * uy
               * (q0 * q3 - q1 * q2) + 2 * uz * (q0 * q2 + q1 * q3)) m],
        [fdiv (2 * ux * (q0 * q3 + q1 * q2) - uy * (2 * q1^2
               + 2 * q3^2 - 1) - 2 * uz * (q0 * q1 - q2 * q3)) m],
        [fdiv (- 2 * ux * (q0 * q2 - q1 * q3) + 2 * uy
               * (q0 * q1 + q2 * q3) - uz * (2 * q1^2 + 2 * q2^2 - 1)) m],
        [Some (- 0.5 * q1 * wx - 0.5 * q2 * wy - 0.5 * q3 * wz)],
        [Some (0.5 * q0 * wx + 0.5 * q2 * wz - 0.5 * q3 * wy)],
        [Some (0.5 * q0 * wy - 0.5 * q1 * wz + 0.5 * q3 * wx)],
        [Some (0.5 * q0 * wz + 0.5 * q1 * wy - 0.5 * q2 * wx)],
        [Some 0],
        [Some (1.0 * uz)],
        [Some (- 1.0 * uy)]])"

definition A_func :: "real list \<Rightarrow> real list \<Rightarrow> error + real option list list" where
  "A_func x u =
    (if length x < 14 \<or> length u < 3 then Inl IndexError
     else
      let m = x ! 0;
          q0 = x ! 7; q1 = x ! 8; q2 = x ! 9; q3 = x ! 10;
          wx = x ! 11; wy = x ! 12; wz = x ! 13;
          ux = u ! 0; uy = u ! 1; uz = u ! 2;
          z = Some 0
      in Inr [
        [z, z, z, z, z, z, z, z, z, z, z, z, z, z],
        [z, z, z, z, Some 1, z, z, z, z, z, z, z, z, z],
        [z, z, z, z, z, Some 1, z, z, z, z, z, z, z, z],
        [z, z, z, z, z, z, Some 1, z, z, z, z, z, z, z],
        [fdiv (ux * (2 * q2^2 + 2 * q3^2 - 1) + 2 * uy * (q0 * q3 - q1 * q2)
               - 2 * uz * (q0 * q2 + q1 * q3)) (m^2),
         z, z, z, z, z, z,
         fdiv (2 * (q2 * uz - q3 * uy)) m,
         fdiv (2 * (q2 * uy + q3 * uz)) m,
         fdiv (2 * (q0 * uz + q1 * uy - 2 * q2 * ux)) m,
         fdiv (2 * (- q0 * uy + q1 * uz - 2 * q3 * ux)) m,
         z, z, z],
        [fdiv (- 2 * ux * (q0 * q3 + q1 * q2) + uy * (2 * q1^2 + 2 * q3^2 - 1)
               + 2 * uz * (q0 * q1 - q2 * q3)) (m^2),
         z, z, z, z, z, z,
         fdiv (2 * (- q1 * uz + q3 * ux)) m,
         fdiv (2 * (- q0 * uz - 2 * q1 * uy + q2 * ux)) m,
         fdiv (2 * (q1 * ux + q3 * uz)) m,
         fdiv (2 * (q0 * ux + q2 * uz - 2 * q3 * uy)) m,
         z, z, z],
        [fdiv (2 * ux * (q0 * q2 - q1 * q3) - 2 * uy * (q0 * q1 + q2 * q3)
               + uz * (2 * q1^2 + 2 * q2^2 - 1)) (m^2),
         z, z, z, z, z, z,
         fdiv (2 * (q1 * uy - q2 * ux)) m,
         fdiv (2 * (q0 * uy - 2 * q1 * uz + q3 * ux)) m,
         fdiv (2 * (- q0 * ux - 2 * q2 * uz + q3 * uy)) m,
         fdiv (2 * (q1 * ux + q2 * uy)) m,
         z, z, z],
        [z, z, z, z, z, z, z, z, Some (- 0.5 * wx), Some (- 0.5 * wy),
         Some (- 0.5 * wz), Some (- 0.5 * q1), Some (- 0.5 * q2), Some (- 0.5 * q3)],
        [z, z, z, z, z, z, z, Some (0.5 * wx), z, Some (0.5 * wz),
         Some (- 0.5 * wy), Some (0.5 * q0), Some (- 0.5 * q3), Some (0.5 * q2)],
        [z, z, z, z, z, z, z, Some (0.5 * wy), Some (- 0.5 * wz), z,
         Some (0.5 * wx), Some (0.5 * q3), Some (0.5 * q0), Some (- 0.5 * q1)],
        [z, z, z, z, z, z, z, Some (0.5 * wz), Some (0.5 * wy),
         Some (- 0.5 * wx), z, Some (- 0.5 * q2), Some (0.5 * q1), Some (0.5 * q0)],
        [z, z, z, z, z, z, z, z, z, z, z, z, z, z],
        [z, z, z, z, z, z, z, z, z, z, z, z, z, z],
        [z, z, z, z, z, z, z, z, z, z, z, z, z, z]])"

definition B_func :: "real list \<Rightarrow> real list \<Rightarrow> error + real option list list" where
  "B_func x u =
    (if length x < 14 \<or> length u < 3 then Inl IndexError
     else
      let m = x ! 0;
          q0 = x ! 7; q1 = x ! 8; q2 = x ! 9; q3 = x ! 10;
          ux = u ! 0; uy = u ! 1; uz = u ! 2;
          z = Some 0
      in Inr [
        [Option.bind (fsqrt (ux^2 + uy^2 + uz^2)) (fdiv (- 0.01 * ux)),
         Option.bind (fsqrt (ux^2 + uy^2 + uz^2)) (fdiv (- 0.01 * uy)),
         Option.bind (fsqrt (ux^2 + uy^2 + uz^2)) (fdiv (- 0.01 * uz))],
        [z, z, z],
        [z, z, z],
        [z, z, z],
        [fdiv (- 2 * q2^2 - 2 * q3^2 + 1) m,
         fdiv (2 * (- q0 * q3 + q1 * q2)) m,
         fdiv (2 * (q0 * q2 + q1 * q3)) m],
        [fdiv (2 * (q0 * q3 + q1 * q2)) m,
         fdiv (- 2 * q1^2 - 2 * q3^2 + 1) m,
         fdiv (2 * (- q0 * q1 + q2 * q3)) m],
        [fdiv (2 * (- q0 * q2 + q1 * q3)) m,
         fdiv (2 * (q0 * q1 + q2 * q3)) m,
         fdiv (- 2 * q1^2 - 2 * q2^2 + 1) m],
        [z, z, z],
        [z, z, z],
        [z, z, z],
        [z, z, z],
        [z, z, z],
        [z, z, Some 1.0],
        [z, Some (- 1.0), z]])"

text \<open>
  Reading an entry of a returned array: whether it is there and its formula has a value,
  and that value.
\<close>

definition finite_entry :: "error + real option list list \<Rightarrow> nat \<Rightarrow> nat \<Rightarrow> bool" where
  "finite_entry r i j =
    (case r of Inl e \<Rightarrow> False
     | Inr M \<Rightarrow> i < length M \<and> j < length (M ! i) \<and> M ! i ! j \<noteq> None)"

definition entry :: "error + real option list list \<Rightarrow> nat \<Rightarrow> nat \<Rightarrow> real" where
  "entry r i j = the (projr r ! i ! j)"


subsection \<open>numpy helpers\<close>

definition deg2rad :: "real \<Rightarrow> real" where
  "deg2rad a = a * (pi / 180)"

definition linalg_norm :: "real list \<Rightarrow> real" where
  "linalg_norm v = sqrt (sum_list (map (\<lambda>c. c^2) v))"

text \<open>The product of a 2-D array, given as the list of its rows, with a 1-D array.\<close>

definition mat_vec :: "real list list \<Rightarrow> real list \<Rightarrow> real list" where
  "mat_vec M v = map (\<lambda>row. sum_list (map2 (*) row v)) M"

text \<open>\<open>xs[a:b]\<close> for \<open>0 \<le> a \<le> b\<close>: Python clamps a slice to the array.\<close>

definition slice :: "'a list \<Rightarrow> nat \<Rightarrow> nat \<Rightarrow> 'a list" where
  "slice xs a b = take (b - a) (drop a xs)"

text \<open>
  Elementwise operations on 1-D arrays broadcast an array of length one and raise
  \<open>ValueError\<close> on any other mismatch of lengths.
\<close>

definition broadcast2 ::
  "(real \<Rightarrow> real \<Rightarrow> real) \<Rightarrow> real list \<Rightarrow> real list \<Rightarrow> error + real list" where
  "broadcast2 f a b =
    (if length a = length b then Inr (map2 f a b)
     else if length a = 1 then Inr (map (f (hd a)) b)
     else if length b = 1 then Inr (map (\<lambda>c. f c (hd b)) a)
     else Inl ValueError)"

subsection \<open>The model \<open>Rocket_Model_6DoF\<close>\<close>

text \<open>
  A random generator is the stream of the variates in \<open>[0, 1)\<close> that it will produce;
  \<open>rng.uniform(lo, hi)\<close> takes the next one and scales it, as numpy's generator does.
  Passing \<open>None\<close> makes the program use a fresh unseeded generator, that is, some stream.
\<close>

type_synonym rng = "nat \<Rightarrow> real"

definition valid_rng :: "rng \<Rightarrow> bool" where
  "valid_rng g = (\<forall>n. 0 \<le> g n \<and> g n < 1)"

definition uniform :: "rng \<Rightarrow> real \<Rightarrow> real \<Rightarrow> real \<times> rng" where
  "uniform g lo hi = (lo + (hi - lo) * g 0, \<lambda>n. g (Suc n))"

definition uniform_size2 :: "rng \<Rightarrow> real \<Rightarrow> real \<Rightarrow> real list \<times> rng" where
  "uniform_size2 g lo hi =
    (let (a, g1) = uniform g lo hi; (b, g2) = uniform g1 lo hi in ([a, b], g2))"

record Rocket_Model_6DoF =
  n_x :: nat
  n_u :: nat
  m_wet :: real
  m_dry :: real
  t_f_guess :: real
  r_I_final :: "real list"
  v_I_final :: "real list"
  q_B_I_final :: "real list"
  w_B_final :: "real list"
  w_B_max :: real
  tan_delta_max :: real
  cos_theta_max :: real
  tan_gamma_gs :: real
  T_max :: real
  T_min :: real
  J_B :: "real list list"
  g_I :: "real list"
  alpha_m :: real
  r_T_B :: "real list"
  r_I_init :: "real list"
  v_I_init :: "real list"
  q_B_I_init :: "real list"
  w_B_init :: "real list"
  x_init :: "real list"
  x_final :: "real list"
  r_scale :: real
  m_scale :: real

definition euler_to_quat :: "real list \<Rightarrow> error + real list" where
  "euler_to_quat a0 =
    (let a = map deg2rad a0 in
     if length a < 3 then Inl IndexError
     else
      let cy = cos (a ! 1 * 0.5);
          sy = sin (a ! 1 * 0.5);
          cr = cos (a ! 0 * 0.5);
          sr = sin (a ! 0 * 0.5);
          cp = cos (a ! 2 * 0.5);
          sp = sin (a ! 2 * 0.5);
          q = replicate 4 0;
          q = q[0 := cy * cr * cp + sy * sr * sp];
          q = q[1 := cy * sr * cp - sy * cr * sp];
          q = q[3 := cy * cr * sp + sy * sr * cp];
          q = q[2 := sy * cr * cp - cy * sr * sp]
      in Inr q)"

definition skew :: "real list \<Rightarrow> error + real list list" where
  "skew v =
    (if length v < 3 then Inl IndexError
     else Inr [
       [0, - (v ! 2), v ! 1],
       [v ! 2, 0, - (v ! 0)],
       [- (v ! 1), v ! 0, 0]])"

definition dir_cosine :: "real list \<Rightarrow> error + real list list" where
  "dir_cosine q =
    (if length q < 4 then Inl IndexError
     else Inr [
       [1 - 2 * ((q ! 2)^2 + (q ! 3)^2), 2 * (q ! 1 * q ! 2 + q ! 0 * q ! 3),
        2 * (q ! 1 * q ! 3 - q ! 0 * q ! 2)],
       [2 * (q ! 1 * q ! 2 - q ! 0 * q ! 3), 1 - 2 * ((q ! 1)^2 + (q ! 3)^2),
        2 * (q ! 2 * q ! 3 + q ! 0 * q ! 1)],
       [2 * (q ! 1 * q ! 3 + q ! 0 * q ! 2), 2 * (q ! 2 * q ! 3 - q ! 0 * q ! 1),
        1 - 2 * ((q ! 1)^2 + (q ! 2)^2)]])"

definition omega :: "real list \<Rightarrow> error + real list list" where
  "omega w =
    (if length w < 3 then Inl IndexError
     else Inr [
       [0, - (w ! 0), - (w ! 1), - (w ! 2)],
       [w ! 0, 0, w ! 2, - (w ! 1)],
       [w ! 1, - (w ! 2), 0, w ! 0],
       [w ! 2, w ! 1, - (w ! 0), 0]])"

text \<open>
  \<open>set_random_initial_state\<close> assigns four attributes of the model and advances the
  generator. The draws are made in the order of the source: one for \<open>r_I_init[0]\<close>, two
  for \<open>r_I_init[1:3]\<close>, one for \<open>v_I_init[0]\<close>, two for \<open>v_I_init[1:3]\<close>, two for the
  Euler angles and two for the angular rate.
\<close>

definition set_random_initial_state ::
  "Rocket_Model_6DoF \<Rightarrow> rng \<Rightarrow> error + (Rocket_Model_6DoF \<times> rng)" where
  "set_random_initial_state self rng =
    (let (r0, rng) = uniform rng 3 4;
         (r12, rng) = uniform_size2 rng (- 2) 2;
         r_I = [r0] @ r12;
         (v0, rng) = uniform rng (- 1) (- 0.5);
         (v12, rng) = uniform_size2 rng (- 0.5) (- 0.2)
     in case broadcast2 (*) v12 (slice r_I 1 3) of Inl e \<Rightarrow> Inl e
        | Inr v12r \<Rightarrow>
     let v_I = [v0] @ v12r;
         (e1, rng) = uniform rng (- 30) 30;
         (e2, rng) = uniform rng (- 30) 30
     in case euler_to_quat [0, e1, e2] of Inl e \<Rightarrow> Inl e
        | Inr q \<Rightarrow>
     let (w1, rng) = uniform rng (- 20) 20;
         (w2, rng) = uniform rng (- 20) 20
     in Inr (self\<lparr>r_I_init := r_I, v_I_init := v_I, q_B_I_init := q,
                     w_B_init := map deg2rad [0, w1, w2]\<rparr>, rng))"

text \<open>
  The constructor \<open>__init__(self, rng)\<close>. An attribute is \<open>[]\<close> or \<open>0\<close> until the body
  assigns it.
\<close>

definition Rocket_Model_6DoF_init :: "rng \<Rightarrow> error + (Rocket_Model_6DoF \<times> rng)" where
  "Rocket_Model_6DoF_init rng =
    (case euler_to_quat [0, 0, 0] of Inl e \<Rightarrow> Inl e
     | Inr q_final \<Rightarrow>
      let max_gimbal = 20; max_angle = 90; glidelslope_angle = 20;
          self = \<lparr> n_x = 14, n_u = 3,
            m_wet = 3.0, m_dry = 2.2,
            t_f_guess = 10.0,
            r_I_final = [0, 0, 0],
            v_I_final = [- 0.1, 0, 0],
            q_B_I_final = q_final,
            w_B_final = map deg2rad [0, 0, 0],
            w_B_max = deg2rad 60,
            tan_delta_max = tan (deg2rad max_gimbal),
            cos_theta_max = cos (deg2rad max_angle),
            tan_gamma_gs = tan (deg2rad glidelslope_angle),
            T_max = 5.0, T_min = 0.3,
            J_B = map (map ((*) 0.01)) [[1, 0, 0], [0, 1, 0], [0, 0, 1]],
            g_I = [- 1, 0, 0],
            alpha_m = 0.01,
            r_T_B = [- 0.01, 0, 0],
            r_I_init = [], v_I_init = [], q_B_I_init = [], w_B_init = [],
            x_init = [], x_final = [], r_scale = 0, m_scale = 0 \<rparr>
      in case set_random_initial_state self rng of Inl e \<Rightarrow> Inl e
         | Inr (self, rng) \<Rightarrow>
           Inr (self\<lparr>
             x_init := [m_wet self] @ r_I_init self @ v_I_init self
                        @ q_B_I_init self @ w_B_init self,
             x_final := [m_dry self] @ r_I_final self @ v_I_final self
                        @ q_B_I_final self @ w_B_final self,
             r_scale := linalg_norm (r_I_init self),
             m_scale := m_wet self\<rparr>, rng))"



subsection \<open>Sequencing, loops and 2-D arrays\<close>

text \<open>
  An exception ends the computation: \<open>seq r f\<close> continues with \<open>f\<close> only when \<open>r\<close> is a
  value. A \<open>for\<close> loop runs its body over the indices in order, threading the state.
\<close>

definition seq :: "error + 'a \<Rightarrow> ('a \<Rightarrow> error + 'b) \<Rightarrow> error + 'b" where
  "seq r f = (case r of Inl e \<Rightarrow> Inl e | Inr v \<Rightarrow> f v)"

fun for_loop :: "('i \<Rightarrow> 's \<Rightarrow> error + 's) \<Rightarrow> 'i list \<Rightarrow> 's \<Rightarrow> error + 's" where
  "for_loop body [] s = Inr s"
| "for_loop body (k # ks) s = seq (body k s) (for_loop body ks)"

text \<open>
  A trajectory array (\<open>X\<close> of shape \<open>(n_x, K)\<close>, \<open>U\<close> of shape \<open>(n_u, K)\<close>) is the list of
  its columns: \<open>X ! k\<close> is \<open>X[:, k]\<close> and \<open>length X\<close> is \<open>X.shape[1]\<close>.
\<close>

type_synonym array2 = "real list list"

definition get_col :: "array2 \<Rightarrow> nat \<Rightarrow> error + real list" where
  "get_col M k = (if k < length M then Inr (M ! k) else Inl IndexError)"

definition set_col :: "array2 \<Rightarrow> nat \<Rightarrow> real list \<Rightarrow> error + array2" where
  "set_col M k v =
    (if \<not> k < length M then Inl IndexError
     else if length v = length (M ! k) then Inr (M[k := v])
     else if length v = 1 then Inr (M[k := replicate (length (M ! k)) (hd v)])
     else Inl ValueError)"

text \<open>An array of shape \<open>(r, c)\<close> has \<open>c\<close> columns of \<open>r\<close> entries.\<close>

definition has_shape :: "array2 \<Rightarrow> nat \<times> nat \<Rightarrow> bool" where
  "has_shape M s = (length M = snd s \<and> list_all (\<lambda>c. length c = fst s) M)"

text \<open>\<open>V[a:b] = vals\<close> on a 1-D array.\<close>

definition slice_assign :: "real list \<Rightarrow> nat \<times> nat \<Rightarrow> real list \<Rightarrow> error + real list" where
  "slice_assign V ind vals =
    (let a = min (fst ind) (length V);
         b = max a (min (snd ind) (length V));
         n = b - a
     in if length vals = n then Inr (take a V @ vals @ drop b V)
        else if length vals = 1 then Inr (take a V @ replicate n (hd vals) @ drop b V)
        else Inl ValueError)"

subsection \<open>\<open>initialize_trajectory\<close>\<close>

definition initialize_trajectory_body ::
  "Rocket_Model_6DoF \<Rightarrow> nat \<Rightarrow> nat \<Rightarrow> array2 \<times> array2 \<Rightarrow> error + (array2 \<times> array2)" where
  "initialize_trajectory_body self K k XU =
    (let X = fst XU; U = snd XU;
         alpha1 = (real K - real k) / real K;
         alpha2 = real k / real K
     in if length (x_init self) < 1 \<or> length (x_final self) < 1 then Inl IndexError
     else
      let m_k = [alpha1 * x_init self ! 0 + alpha2 * x_final self ! 0] in
      seq (broadcast2 (+) (map ((*) alpha1) (slice (x_init self) 1 4))
                          (map ((*) alpha2) (slice (x_final self) 1 4))) (\<lambda>r_I_k.
      seq (broadcast2 (+) (map ((*) alpha1) (slice (x_init self) 4 7))
                          (map ((*) alpha2) (slice (x_final self) 4 7))) (\<lambda>v_I_k.
      let q_B_I_k = [1, 0, 0, 0] in
      seq (broadcast2 (+) (map ((*) alpha1) (slice (x_init self) 11 14))
                          (map ((*) alpha2) (slice (x_final self) 11 14))) (\<lambda>w_B_k.
      seq (set_col X k (m_k @ r_I_k @ v_I_k @ q_B_I_k @ w_B_k)) (\<lambda>X.
      seq (broadcast2 (*) m_k (map uminus (g_I self))) (\<lambda>u_k.
      seq (set_col U k u_k) (\<lambda>U.
      Inr (X, U))))))))"

definition initialize_trajectory ::
  "Rocket_Model_6DoF \<Rightarrow> array2 \<Rightarrow> array2 \<Rightarrow> error + (array2 \<times> array2)" where
  "initialize_trajectory self X U =
    (let K = length X
     in for_loop (initialize_trajectory_body self K) [0..<K] (X, U))"

subsection \<open>The \<open>Integrator\<close>\<close>

text \<open>
  The attributes \<open>K\<close>, \<open>m\<close>, \<open>n_x\<close> and \<open>n_u\<close> of the integrator carry the prefix \<open>int_\<close>
  here; \<open>f\<close>, \<open>A\<close> and \<open>B\<close> are the model's \<open>f_func\<close>, \<open>A_func\<close> and \<open>B_func\<close>.
\<close>

record Integrator =
  int_K :: int
  int_m :: Rocket_Model_6DoF
  int_n_x :: nat
  int_n_u :: nat
  A_bar :: array2
  B_bar :: array2
  C_bar :: array2
  S_bar :: array2
  z_bar :: array2
  x_ind :: "nat \<times> nat"
  A_bar_ind :: "nat \<times> nat"
  B_bar_ind :: "nat \<times> nat"
  C_bar_ind :: "nat \<times> nat"
  S_bar_ind :: "nat \<times> nat"
  z_bar_ind :: "nat \<times> nat"
  V0 :: "real list"
  dt :: real

text \<open>\<open>np.zeros([r, c])\<close> raises \<open>ValueError\<close> for a negative dimension.\<close>

definition zeros2 :: "nat \<Rightarrow> int \<Rightarrow> error + array2" where
  "zeros2 r c = (if c < 0 then Inl ValueError else Inr (replicate (nat c) (replicate r 0)))"

text \<open>\<open>np.eye(n).reshape(-1)\<close>, the identity matrix row after row.\<close>

definition eye_flat :: "nat \<Rightarrow> real list" where
  "eye_flat n = concat (map (\<lambda>i. map (\<lambda>j. if i = j then 1 else 0) [0..<n]) [0..<n])"

definition Integrator_init :: "Rocket_Model_6DoF \<Rightarrow> int \<Rightarrow> error + Integrator" where
  "Integrator_init m K =
    seq (zeros2 (n_x m * n_x m) (K - 1)) (\<lambda>A_bar0.
    seq (zeros2 (n_x m * n_u m) (K - 1)) (\<lambda>B_bar0.
    seq (zeros2 (n_x m * n_u m) (K - 1)) (\<lambda>C_bar0.
    seq (zeros2 (n_x m) (K - 1)) (\<lambda>S_bar0.
    seq (zeros2 (n_x m) (K - 1)) (\<lambda>z_bar0.
    let x_end = n_x m;
        A_bar_end = n_x m * (1 + n_x m);
        B_bar_end = n_x m * (1 + n_x m + n_u m);
        C_bar_end = n_x m * (1 + n_x m + n_u m + n_u m);
        S_bar_end = n_x m * (1 + n_x m + n_u m + n_u m + 1);
        z_bar_end = n_x m * (1 + n_x m + n_u m + n_u m + 2);
        V0_zeros = replicate (n_x m * (1 + n_x m + n_u m + n_u m + 2)) 0
    in
    seq (slice_assign V0_zeros (x_end, A_bar_end) (eye_flat (n_x m))) (\<lambda>V0_eye.
    if K - 1 = 0 then Inl ZeroDivisionError
    else Inr \<lparr> int_K = K, int_m = m, int_n_x = n_x m, int_n_u = n_u m,
               A_bar = A_bar0, B_bar = B_bar0, C_bar = C_bar0,
               S_bar = S_bar0, z_bar = z_bar0,
               x_ind = (0, x_end),
               A_bar_ind = (x_end, A_bar_end),
               B_bar_ind = (A_bar_end, B_bar_end),
               C_bar_ind = (B_bar_end, C_bar_end),
               S_bar_ind = (C_bar_end, S_bar_end),
               z_bar_ind = (S_bar_end, z_bar_end),
               V0 = V0_eye,
               dt = 1 / real_of_int (K - 1) \<rparr>))))))"

text \<open>
  \<open>calculate_discretization\<close> calls the external integrator \<open>odeint\<close> once per interval.
  A call is recorded with what it is handed: the seed \<open>y0\<close>, the two time points and the
  extra arguments \<open>(U[:, k], U[:, k + 1], sigma)\<close>. The integrator, together with the
  vector field it is given, is a parameter: a function from the call to the vector \<open>V\<close> at
  the end of the interval. The state of the loop is the integrator object and the calls
  made so far.

  The source file ends inside the loop body, in the statement after the call,
  \<open>Phi = V[self.A_bar_ind].reshape((self.n_\<close>. What follows in the body, and the vector
  field \<open>_ode_dVdt\<close>, are modelled from the specification.
\<close>

record ode_call =
  y0 :: "real list"
  t_span :: "real \<times> real"
  args :: "real list \<times> real list \<times> real"

text \<open>
  Matrices that the loop body computes with are lists of rows. \<open>v.reshape((r, c))\<close> cuts a
  1-D array into \<open>r\<close> rows and raises \<open>ValueError\<close> when the size is not \<open>r * c\<close>;
  \<open>M.flatten(order='F')\<close> lists a matrix column after column; \<open>np.matmul\<close> is the matrix
  product, which raises \<open>ValueError\<close> for a vector of the wrong length.
\<close>

definition reshape :: "real list \<Rightarrow> nat \<Rightarrow> nat \<Rightarrow> error + real list list" where
  "reshape v r c =
    (if length v = r * c then Inr (map (\<lambda>i. slice v (i * c) (i * c + c)) [0..<r])
     else Inl ValueError)"

definition ncols :: "real list list \<Rightarrow> nat" where
  "ncols M = (case M of [] \<Rightarrow> 0 | row # rows \<Rightarrow> length row)"

definition flatten_F :: "real list list \<Rightarrow> real list" where
  "flatten_F M = concat (map (\<lambda>j. map (\<lambda>row. row ! j) M) [0..<ncols M])"

definition matmul :: "real list list \<Rightarrow> real list list \<Rightarrow> real list list" where
  "matmul A B =
    map (\<lambda>row. map (\<lambda>j. sum_list (map2 (*) row (map (\<lambda>r. r ! j) B))) [0..<ncols B]) A"

definition matmul_vec :: "real list list \<Rightarrow> real list \<Rightarrow> error + real list" where
  "matmul_vec M v =
    (if list_all (\<lambda>row. length row = length v) M then Inr (mat_vec M v)
     else Inl ValueError)"

text \<open>
  Modelled from the spec: the statements of the loop body of \<open>calculate_discretization\<close>
  after the call of the integrator, which the source file does not contain. The spec
  (Discretizer, step 4) says: recover \<open>A_bar_k\<close> directly from the integrated \<open>\<Phi>(1)\<close>;
  recover \<open>B_bar_k\<close> and \<open>C_bar_k\<close> as \<open>\<Phi>(1)\<close> times the integrated control-influence
  block; recover \<open>S_bar_k\<close> and \<open>z_bar_k\<close> similarly. Each result is stored in column \<open>k\<close>
  of its array, a matrix flattened column after column as the comment in the source says
  (\<open>flatten matrices in column-major (Fortran) order\<close>). The seed buffer \<open>V0\<close> is not
  written.
\<close>

definition store_discretization :: "Integrator \<Rightarrow> nat \<Rightarrow> real list \<Rightarrow> error + Integrator" where
  "store_discretization self k V =
    seq (reshape (slice V (fst (A_bar_ind self)) (snd (A_bar_ind self)))
           (int_n_x self) (int_n_x self)) (\<lambda>Phi.
    seq (set_col (A_bar self) k (flatten_F Phi)) (\<lambda>A_bar_k.
    seq (reshape (slice V (fst (B_bar_ind self)) (snd (B_bar_ind self)))
           (int_n_x self) (int_n_u self)) (\<lambda>B_block.
    seq (set_col (B_bar self) k (flatten_F (matmul Phi B_block))) (\<lambda>B_bar_k.
    seq (reshape (slice V (fst (C_bar_ind self)) (snd (C_bar_ind self)))
           (int_n_x self) (int_n_u self)) (\<lambda>C_block.
    seq (set_col (C_bar self) k (flatten_F (matmul Phi C_block))) (\<lambda>C_bar_k.
    seq (matmul_vec Phi (slice V (fst (S_bar_ind self)) (snd (S_bar_ind self)))) (\<lambda>S_k.
    seq (set_col (S_bar self) k S_k) (\<lambda>S_bar_k.
    seq (matmul_vec Phi (slice V (fst (z_bar_ind self)) (snd (z_bar_ind self)))) (\<lambda>z_k.
    seq (set_col (z_bar self) k z_k) (\<lambda>z_bar_k.
    Inr (self\<lparr>A_bar := A_bar_k, B_bar := B_bar_k, C_bar := C_bar_k,
                  S_bar := S_bar_k, z_bar := z_bar_k\<rparr>)))))))))))"

definition calculate_discretization_body ::
  "(ode_call \<Rightarrow> real list) \<Rightarrow> array2 \<Rightarrow> array2 \<Rightarrow> real \<Rightarrow> nat
   \<Rightarrow> Integrator \<times> ode_call list \<Rightarrow> error + (Integrator \<times> ode_call list)" where
  "calculate_discretization_body odeint X U sigma k st =
    (let self = fst st; calls = snd st in
     seq (get_col X k) (\<lambda>x_k.
     seq (slice_assign (V0 self) (x_ind self) x_k) (\<lambda>V0_k.
     let self = self\<lparr>V0 := V0_k\<rparr> in
     seq (get_col U k) (\<lambda>u_k.
     seq (get_col U (k + 1)) (\<lambda>u_k1.
     let call = \<lparr> y0 = V0 self, t_span = (0, dt self), args = (u_k, u_k1, sigma) \<rparr>;
         V = odeint call
     in seq (store_discretization self k V) (\<lambda>self.
        Inr (self, calls @ [call])))))))"

definition calculate_discretization ::
  "(ode_call \<Rightarrow> real list) \<Rightarrow> Integrator \<Rightarrow> array2 \<Rightarrow> array2 \<Rightarrow> real
   \<Rightarrow> error + (Integrator \<times> ode_call list)" where
  "calculate_discretization odeint self X U sigma =
    for_loop (calculate_discretization_body odeint X U sigma)
      [0..<nat (int_K self - 1)] (self, [])"

text \<open>
  Modelled from the spec: the scaled time of the vector field \<open>_ode_dVdt\<close>, which the
  source file does not contain. The spec (Discretizer, step 1) forms the augmented ODE
  over a scaled time variable \<open>\<tau>\<close> in \<open>[0, 1]\<close> that covers one interval, and (External
  interfaces) has the integrator traverse that interval with its own time from 0 to
  \<open>dt\<close>: at the integrator's time \<open>t\<close> the scaled time is \<open>t / dt\<close>.
\<close>

definition tau :: "Integrator \<Rightarrow> real \<Rightarrow> real" where
  "tau self t = t / dt self"

text \<open>
  The integrator objects that can occur: the constructed object, with any vector of
  dimension \<open>n_x\<close> in the state block of the seed buffer \<open>V0\<close> and any entries in the
  five result arrays.
\<close>

definition seeded :: "Rocket_Model_6DoF \<Rightarrow> int \<Rightarrow> Integrator \<Rightarrow> bool" where
  "seeded m K I =
    (\<exists>I0 xs A B C S z. Integrator_init m K = Inr I0 \<and> length xs = n_x m
        \<and> has_shape A (n_x m * n_x m, nat (K - 1))
        \<and> has_shape B (n_x m * n_u m, nat (K - 1))
        \<and> has_shape C (n_x m * n_u m, nat (K - 1))
        \<and> has_shape S (n_x m, nat (K - 1))
        \<and> has_shape z (n_x m, nat (K - 1))
        \<and> I = I0\<lparr>A_bar := A, B_bar := B, C_bar := C, S_bar := S, z_bar := z,
                   V0 := xs @ drop (n_x m) (V0 I0)\<rparr>)"

subsection \<open>\<open>get_constraints\<close>\<close>

text \<open>
  \<open>get_constraints\<close> builds cvxpy constraint objects and returns them in a list. The
  objects are modelled as the terms that the source writes: a decision variable or a
  parameter has a name and a shape, and the operators are those that occur in the source.
  \<open>a >= b\<close> is kept as written. The bound of the tilt constraint is the number
  \<open>np.sqrt((1 - cos_theta_max) / 2)\<close>, whose argument is not negative when
  \<open>cos_theta_max\<close> is a cosine.
\<close>

datatype leaf = Variable string nat nat | Parameter string nat nat

fun leaf_name :: "leaf \<Rightarrow> string" where
  "leaf_name (Variable s r c) = s"
| "leaf_name (Parameter s r c) = s"

fun shape :: "leaf \<Rightarrow> nat \<times> nat" where
  "shape (Variable s r c) = (r, c)"
| "shape (Parameter s r c) = (r, c)"

datatype index = At int | Range nat nat | From nat | Full

datatype expr =
    Leaf leaf
  | Const real
  | ConstVec "real list"
  | Index expr index index
  | NormAxis0 expr
  | Norm expr
  | Mul expr expr
  | Div expr expr
  | MatMul expr expr
  | VStack "expr list"

datatype constr = Eq expr expr | Leq expr expr | Geq expr expr

definition get_constraints ::
  "Rocket_Model_6DoF \<Rightarrow> leaf \<Rightarrow> leaf \<Rightarrow> leaf \<Rightarrow> leaf \<Rightarrow> error + constr list" where
  "get_constraints self X_v U_v X_last_p U_last_p =
    (if length (x_init self) < 1 then Inl IndexError
     else
      let constraints = [
            Eq (Index (Leaf X_v) (At 0) (At 0)) (Const (x_init self ! 0)),
            Eq (Index (Leaf X_v) (Range 1 4) (At 0)) (ConstVec (slice (x_init self) 1 4)),
            Eq (Index (Leaf X_v) (Range 4 7) (At 0)) (ConstVec (slice (x_init self) 4 7)),
            Eq (Index (Leaf X_v) (Range 11 14) (At 0)) (ConstVec (slice (x_init self) 11 14)),
            Eq (Index (Leaf X_v) (From 1) (At (- 1))) (ConstVec (drop 1 (x_final self))),
            Eq (Index (Leaf U_v) (Range 1 3) (At (- 1))) (Const 0)];
          constraints = constraints @ [
            Geq (Index (Leaf X_v) (At 0) Full) (Const (m_dry self)),
            Leq (NormAxis0 (Index (Leaf X_v) (Range 2 4) Full))
                (Div (Index (Leaf X_v) (At 1) Full) (Const (tan_gamma_gs self))),
            Leq (NormAxis0 (Index (Leaf X_v) (Range 9 11) Full))
                (Const (sqrt ((1 - cos_theta_max self) / 2))),
            Leq (NormAxis0 (Index (Leaf X_v) (Range 11 14) Full)) (Const (w_B_max self)),
            Leq (NormAxis0 (Index (Leaf U_v) (Range 1 3) Full))
                (Mul (Const (tan_delta_max self)) (Index (Leaf U_v) (At 0) Full)),
            Leq (NormAxis0 (Leaf U_v)) (Const (T_max self))];
          rhs = map (\<lambda>k. MatMul (Div (Index (Leaf U_last_p) Full (At (int k)))
                                      (Norm (Index (Leaf U_last_p) Full (At (int k)))))
                                 (Index (Leaf U_v) Full (At (int k))))
                    [0..<snd (shape X_v)];
          constraints = constraints @ [
            Leq (Const (T_min self)) (VStack rhs)]
      in Inr constraints)"

text \<open>
  The meaning of a constraint. An assignment gives every variable and parameter a 2-D
  array (the list of its columns) of its declared shape. An expression denotes a scalar,
  a 1-D array or a 2-D array with its number of rows; an expression that cvxpy rejects, or
  a division by zero, denotes nothing. A comparison holds elementwise and broadcasts a
  scalar.
\<close>

datatype val = Sc real | Vec "real list" | Mat nat array2

type_synonym assignment = "string \<Rightarrow> array2"

definition resolve :: "int \<Rightarrow> nat \<Rightarrow> nat option" where
  "resolve i n =
    (if 0 \<le> i \<and> i < int n then Some (nat i)
     else if i < 0 \<and> - i \<le> int n then Some (nat (int n + i))
     else None)"

fun index_mat :: "nat \<Rightarrow> array2 \<Rightarrow> index \<Rightarrow> index \<Rightarrow> val option" where
  "index_mat r M (At i) (At j) =
    (case (resolve i r, resolve j (length M)) of
       (Some i', Some j') \<Rightarrow> Some (Sc (M ! j' ! i')) | _ \<Rightarrow> None)"
| "index_mat r M (Range a b) (At j) =
    (case resolve j (length M) of Some j' \<Rightarrow> Some (Vec (slice (M ! j') a b)) | None \<Rightarrow> None)"
| "index_mat r M (From a) (At j) =
    (case resolve j (length M) of Some j' \<Rightarrow> Some (Vec (drop a (M ! j'))) | None \<Rightarrow> None)"
| "index_mat r M Full (At j) =
    (case resolve j (length M) of Some j' \<Rightarrow> Some (Vec (M ! j')) | None \<Rightarrow> None)"
| "index_mat r M (At i) Full =
    (case resolve i r of Some i' \<Rightarrow> Some (Vec (map (\<lambda>c. c ! i') M)) | None \<Rightarrow> None)"
| "index_mat r M (Range a b) Full =
    Some (Mat (min b r - min a r) (map (\<lambda>c. slice c a b) M))"
| "index_mat r M i j = None"

definition the_scalars :: "val option list \<Rightarrow> real list option" where
  "the_scalars vs =
    (if list_all (\<lambda>v. case v of Some (Sc c) \<Rightarrow> True | _ \<Rightarrow> False) vs
     then Some (map (\<lambda>v. case v of Some (Sc c) \<Rightarrow> c | _ \<Rightarrow> 0) vs) else None)"

fun eval :: "assignment \<Rightarrow> expr \<Rightarrow> val option" where
  "eval \<sigma> (Leaf l) =
    (let M = \<sigma> (leaf_name l)
     in if has_shape M (shape l) then Some (Mat (fst (shape l)) M) else None)"
| "eval \<sigma> (Const c) = Some (Sc c)"
| "eval \<sigma> (ConstVec v) = Some (Vec v)"
| "eval \<sigma> (Index e i j) =
    (case eval \<sigma> e of Some (Mat r M) \<Rightarrow> index_mat r M i j | _ \<Rightarrow> None)"
| "eval \<sigma> (NormAxis0 e) =
    (case eval \<sigma> e of Some (Mat r M) \<Rightarrow> Some (Vec (map linalg_norm M)) | _ \<Rightarrow> None)"
| "eval \<sigma> (Norm e) =
    (case eval \<sigma> e of Some (Vec v) \<Rightarrow> Some (Sc (linalg_norm v)) | _ \<Rightarrow> None)"
| "eval \<sigma> (Mul a b) =
    (case (eval \<sigma> a, eval \<sigma> b) of
       (Some (Sc c), Some (Vec v)) \<Rightarrow> Some (Vec (map ((*) c) v)) | _ \<Rightarrow> None)"
| "eval \<sigma> (Div a b) =
    (case (eval \<sigma> a, eval \<sigma> b) of
       (Some (Vec v), Some (Sc c)) \<Rightarrow>
          if c = 0 then None else Some (Vec (map (\<lambda>a. a / c) v))
     | _ \<Rightarrow> None)"
| "eval \<sigma> (MatMul a b) =
    (case (eval \<sigma> a, eval \<sigma> b) of
       (Some (Vec v), Some (Vec w)) \<Rightarrow>
          if length v = length w then Some (Sc (sum_list (map2 (*) v w))) else None
     | _ \<Rightarrow> None)"
| "eval \<sigma> (VStack es) = map_option Vec (the_scalars (map (eval \<sigma>) es))"

fun compare :: "(real \<Rightarrow> real \<Rightarrow> bool) \<Rightarrow> val option \<Rightarrow> val option \<Rightarrow> bool" where
  "compare R (Some (Sc a)) (Some (Sc b)) = R a b"
| "compare R (Some (Vec v)) (Some (Sc b)) = list_all (\<lambda>a. R a b) v"
| "compare R (Some (Sc a)) (Some (Vec w)) = list_all (R a) w"
| "compare R (Some (Vec v)) (Some (Vec w)) = (length v = length w \<and> list_all2 R v w)"
| "compare R a b = False"

fun holds :: "assignment \<Rightarrow> constr \<Rightarrow> bool" where
  "holds \<sigma> (Eq a b) = compare (=) (eval \<sigma> a) (eval \<sigma> b)"
| "holds \<sigma> (Leq a b) = compare (\<le>) (eval \<sigma> a) (eval \<sigma> b)"
| "holds \<sigma> (Geq a b) = compare (\<ge>) (eval \<sigma> a) (eval \<sigma> b)"

definition feasible :: "assignment \<Rightarrow> error + constr list \<Rightarrow> bool" where
  "feasible \<sigma> r = (case r of Inl e \<Rightarrow> False | Inr cs \<Rightarrow> list_all (holds \<sigma>) cs)"

text \<open>
  A norm of an expression in a decision variable is convex; a constraint that bounds
  such a norm from below is not.
\<close>

fun mentions_variable :: "expr \<Rightarrow> bool" where
  "mentions_variable (Leaf (Variable s r c)) = True"
| "mentions_variable (Leaf (Parameter s r c)) = False"
| "mentions_variable (Const c) = False"
| "mentions_variable (ConstVec v) = False"
| "mentions_variable (Index e i j) = mentions_variable e"
| "mentions_variable (NormAxis0 e) = mentions_variable e"
| "mentions_variable (Norm e) = mentions_variable e"
| "mentions_variable (Mul a b) = (mentions_variable a \<or> mentions_variable b)"
| "mentions_variable (Div a b) = (mentions_variable a \<or> mentions_variable b)"
| "mentions_variable (MatMul a b) = (mentions_variable a \<or> mentions_variable b)"
| "mentions_variable (VStack es) = list_ex mentions_variable es"

fun has_variable_norm :: "expr \<Rightarrow> bool" where
  "has_variable_norm (Leaf l) = False"
| "has_variable_norm (Const c) = False"
| "has_variable_norm (ConstVec v) = False"
| "has_variable_norm (Index e i j) = has_variable_norm e"
| "has_variable_norm (NormAxis0 e) = mentions_variable e"
| "has_variable_norm (Norm e) = mentions_variable e"
| "has_variable_norm (Mul a b) = (has_variable_norm a \<or> has_variable_norm b)"
| "has_variable_norm (Div a b) = (has_variable_norm a \<or> has_variable_norm b)"
| "has_variable_norm (MatMul a b) = (has_variable_norm a \<or> has_variable_norm b)"
| "has_variable_norm (VStack es) = list_ex has_variable_norm es"

fun bounds_norm_below :: "constr \<Rightarrow> bool" where
  "bounds_norm_below (Eq a b) = (has_variable_norm a \<or> has_variable_norm b)"
| "bounds_norm_below (Leq a b) = has_variable_norm b"
| "bounds_norm_below (Geq a b) = has_variable_norm a"


section \<open>Proofs\<close>

subsection \<open>Entries of the dynamics\<close>

lemma lt14:
  "(i::nat) < 14 \<Longrightarrow> i = 0 \<or> i = 1 \<or> i = 2 \<or> i = 3 \<or> i = 4 \<or> i = 5 \<or> i = 6 \<or> i = 7
     \<or> i = 8 \<or> i = 9 \<or> i = 10 \<or> i = 11 \<or> i = 12 \<or> i = 13"
  by arith

lemma lt3: "(i::nat) < 3 \<Longrightarrow> i = 0 \<or> i = 1 \<or> i = 2"
  by arith

lemma the_fdiv: "b \<noteq> 0 \<Longrightarrow> the (fdiv a b) = a / b"
  by (simp add: fdiv_def)

lemma sq3_pos:
  fixes a b c :: real
  assumes "a \<noteq> 0 \<or> b \<noteq> 0 \<or> c \<noteq> 0"
  shows "0 < a^2 + b^2 + c^2"
  using assms
  by (metis add_pos_nonneg add_nonneg_pos zero_le_power2 zero_less_power2 add_nonneg_nonneg)

lemma sq3_not_neg: "\<not> (a::real)^2 + b^2 + c^2 < 0"
  by (simp add: not_less)

lemma list3_nonzero:
  assumes "length u = 3"
  shows "u \<noteq> [0, 0, 0] \<longleftrightarrow> (u ! 0 \<noteq> (0::real) \<or> u ! 1 \<noteq> 0 \<or> u ! 2 \<noteq> 0)"
proof -
  obtain a b c where u: "u = [a, b, c]"
    using assms by (auto simp: length_Suc_conv numeral_3_eq_3)
  show ?thesis unfolding u by auto
qed

subsection \<open>The constructed model\<close>

lemma deg2rad_zero: "deg2rad 0 = 0"
  by (simp add: deg2rad_def)

lemma replicate4: "replicate 4 a = [a, a, a, a]"
  by (simp add: eval_nat_numeral)

lemma euler_to_quat_zero: "euler_to_quat [0, 0, 0] = Inr [1, 0, 0, 0]"
  by (simp add: euler_to_quat_def deg2rad_def Let_def replicate4 eval_nat_numeral)

lemma euler_to_quat_yaw_pitch:
  "euler_to_quat [0, e1, e2] =
     Inr [cos (deg2rad e1 * 0.5) * cos (deg2rad e2 * 0.5),
          - (sin (deg2rad e1 * 0.5) * sin (deg2rad e2 * 0.5)),
          sin (deg2rad e1 * 0.5) * cos (deg2rad e2 * 0.5),
          cos (deg2rad e1 * 0.5) * sin (deg2rad e2 * 0.5)]"
  by (simp add: euler_to_quat_def Let_def replicate4 eval_nat_numeral deg2rad_zero)

lemma set_random_initial_state_eq:
  "set_random_initial_state self g =
     Inr (self\<lparr>
       r_I_init := [3 + g 0, - 2 + 4 * g 1, - 2 + 4 * g 2],
       v_I_init := [- 1 + 0.5 * g 3, (- 0.5 + 0.3 * g 4) * (- 2 + 4 * g 1),
                    (- 0.5 + 0.3 * g 5) * (- 2 + 4 * g 2)],
       q_B_I_init := [cos (deg2rad (- 30 + 60 * g 6) * 0.5) * cos (deg2rad (- 30 + 60 * g 7) * 0.5),
          - (sin (deg2rad (- 30 + 60 * g 6) * 0.5) * sin (deg2rad (- 30 + 60 * g 7) * 0.5)),
          sin (deg2rad (- 30 + 60 * g 6) * 0.5) * cos (deg2rad (- 30 + 60 * g 7) * 0.5),
          cos (deg2rad (- 30 + 60 * g 6) * 0.5) * sin (deg2rad (- 30 + 60 * g 7) * 0.5)],
       w_B_init := [0, deg2rad (- 20 + 40 * g 8), deg2rad (- 20 + 40 * g 9)]\<rparr>,
       \<lambda>n. g (n + 10))"
  apply (simp add: set_random_initial_state_def uniform_def uniform_size2_def Let_def
      broadcast2_def slice_def euler_to_quat_yaw_pitch split_def)
  apply (simp add: eval_nat_numeral deg2rad_zero)
  done


lemma init_model_fields:
  "\<exists>self. Rocket_Model_6DoF_init g = Inr (self, \<lambda>n. g (n + 10))
     \<and> n_x self = 14 \<and> n_u self = 3
     \<and> m_wet self = 3 \<and> m_dry self = 2.2
     \<and> alpha_m self = 0.01 \<and> g_I self = [- 1, 0, 0] \<and> r_T_B self = [- 0.01, 0, 0]
     \<and> J_B self = [[0.01, 0, 0], [0, 0.01, 0], [0, 0, 0.01]]
     \<and> r_I_init self = [3 + g 0, - 2 + 4 * g 1, - 2 + 4 * g 2]
     \<and> v_I_init self = [- 1 + 0.5 * g 3, (- 0.5 + 0.3 * g 4) * (- 2 + 4 * g 1),
                          (- 0.5 + 0.3 * g 5) * (- 2 + 4 * g 2)]
     \<and> q_B_I_init self =
         [cos (deg2rad (- 30 + 60 * g 6) * 0.5) * cos (deg2rad (- 30 + 60 * g 7) * 0.5),
          - (sin (deg2rad (- 30 + 60 * g 6) * 0.5) * sin (deg2rad (- 30 + 60 * g 7) * 0.5)),
          sin (deg2rad (- 30 + 60 * g 6) * 0.5) * cos (deg2rad (- 30 + 60 * g 7) * 0.5),
          cos (deg2rad (- 30 + 60 * g 6) * 0.5) * sin (deg2rad (- 30 + 60 * g 7) * 0.5)]
     \<and> w_B_init self = [0, deg2rad (- 20 + 40 * g 8), deg2rad (- 20 + 40 * g 9)]
     \<and> x_init self = [3] @ r_I_init self @ v_I_init self @ q_B_I_init self @ w_B_init self
     \<and> x_final self = [2.2, 0, 0, 0, - 0.1, 0, 0, 1, 0, 0, 0, 0, 0, 0]
     \<and> w_B_max self = deg2rad 60 \<and> tan_delta_max self = tan (deg2rad 20)
     \<and> cos_theta_max self = cos (deg2rad 90) \<and> tan_gamma_gs self = tan (deg2rad 20)
     \<and> T_max self = 5 \<and> T_min self = 0.3"
  by (simp add: Rocket_Model_6DoF_init_def euler_to_quat_zero
      set_random_initial_state_eq Let_def deg2rad_zero)

lemma init_fields:
  "\<exists>self. Rocket_Model_6DoF_init g = Inr (self, \<lambda>n. g (n + 10))
     \<and> m_wet self = 3 \<and> m_dry self = 2.2
     \<and> alpha_m self = 0.01 \<and> g_I self = [- 1, 0, 0] \<and> r_T_B self = [- 0.01, 0, 0]
     \<and> J_B self = [[0.01, 0, 0], [0, 0.01, 0], [0, 0, 0.01]]"
  using init_model_fields[of g] by auto

subsection \<open>The dynamics\<close>

lemma list14:
  assumes "length x = 14"
  obtains x0 x1 x2 x3 x4 x5 x6 x7 x8 x9 x10 x11 x12 x13 :: 'a
  where "x = [x0, x1, x2, x3, x4, x5, x6, x7, x8, x9, x10, x11, x12, x13]"
  using assms by (auto simp: length_Suc_conv eval_nat_numeral)

lemma list3:
  assumes "length u = 3"
  obtains a b c :: 'a where "u = [a, b, c]"
  using assms by (auto simp: length_Suc_conv eval_nat_numeral)

text \<open>
  C2. For a state \<open>x\<close> of dimension 14 with nonzero mass \<open>m = x[0]\<close> and a control \<open>u\<close> of
  dimension 3, and for the model constructed with any generator: \<open>alpha_m\<close> is 0.01,
  \<open>g_I\<close> is \<open>(-1, 0, 0)\<close>, and \<open>f_func(x, u)\<close> is the column of the finite values
  \<open>- alpha_m * norm(u)\<close>, the velocity \<open>x[4:7]\<close>, \<open>g_I + dir_cosine(q)\<^sup>T u / m\<close> with
  \<open>q = x[7:11]\<close>, \<open>0.5 * omega(w) q\<close> with \<open>w = x[11:14]\<close>, and \<open>(0, u\<^sub>z, - u\<^sub>y)\<close>; the last
  three satisfy \<open>J_B (0, u\<^sub>z, - u\<^sub>y) = skew(r_T_B) u\<close> for \<open>r_T_B = (-0.01, 0, 0)\<close> and
  \<open>J_B = 0.01 I\<close>.
\<close>

theorem f_func_components:
  assumes "length x = 14" and "length u = 3" and "x ! 0 \<noteq> 0"
  shows "\<exists>self rng' C W S.
      Rocket_Model_6DoF_init rng = Inr (self, rng')
    \<and> alpha_m self = 0.01 \<and> g_I self = [- 1, 0, 0]
    \<and> r_T_B self = [- 0.01, 0, 0]
    \<and> J_B self = [[0.01, 0, 0], [0, 0.01, 0], [0, 0, 0.01]]
    \<and> dir_cosine (slice x 7 11) = Inr C
    \<and> omega (slice x 11 14) = Inr W
    \<and> skew (r_T_B self) = Inr S
    \<and> f_func x u = Inr (map (\<lambda>v. [Some v])
         ([- alpha_m self * linalg_norm u]
          @ slice x 4 7
          @ map2 (+) (g_I self) (map (\<lambda>c. c / x ! 0) (mat_vec (transpose C) u))
          @ map ((*) 0.5) (mat_vec W (slice x 7 11))
          @ [0, u ! 2, - (u ! 1)]))
    \<and> mat_vec (J_B self) [0, u ! 2, - (u ! 1)] = mat_vec S u"
proof -
  obtain x0 x1 x2 x3 x4 x5 x6 x7 x8 x9 x10 x11 x12 x13
    where x: "x = [x0, x1, x2, x3, x4, x5, x6, x7, x8, x9, x10, x11, x12, x13]"
    using assms(1) by (rule list14)
  obtain a b c where u: "u = [a, b, c]"
    using assms(2) by (rule list3)
  obtain self where self: "Rocket_Model_6DoF_init rng = Inr (self, \<lambda>n. rng (n + 10))"
    "alpha_m self = 0.01" "g_I self = [- 1, 0, 0]" "r_T_B self = [- 0.01, 0, 0]"
    "J_B self = [[0.01, 0, 0], [0, 0.01, 0], [0, 0, 0.01]]"
    using init_fields[of rng] by blast
  have m: "x0 \<noteq> 0"
    using assms(3) by (simp add: x)
  have C: "dir_cosine (slice x 7 11) =
      Inr [[1 - 2 * (x9^2 + x10^2), 2 * (x8 * x9 + x7 * x10), 2 * (x8 * x10 - x7 * x9)],
           [2 * (x8 * x9 - x7 * x10), 1 - 2 * (x8^2 + x10^2), 2 * (x9 * x10 + x7 * x8)],
           [2 * (x8 * x10 + x7 * x9), 2 * (x9 * x10 - x7 * x8), 1 - 2 * (x8^2 + x9^2)]]"
    by (simp add: x slice_def dir_cosine_def)
  have W: "omega (slice x 11 14) =
      Inr [[0, - x11, - x12, - x13], [x11, 0, x13, - x12],
           [x12, - x13, 0, x11], [x13, x12, - x11, 0]]"
    by (simp add: x slice_def omega_def)
  have S: "skew (r_T_B self) = Inr [[0, 0, 0], [0, 0, 0.01], [0, - 0.01, 0]]"
    by (simp add: self skew_def)
  have f: "f_func x u = Inr (map (\<lambda>v. [Some v])
         ([- alpha_m self * linalg_norm u]
          @ slice x 4 7
          @ map2 (+) (g_I self) (map (\<lambda>c. c / x ! 0)
              (mat_vec (transpose [[1 - 2 * (x9^2 + x10^2), 2 * (x8 * x9 + x7 * x10), 2 * (x8 * x10 - x7 * x9)],
           [2 * (x8 * x9 - x7 * x10), 1 - 2 * (x8^2 + x10^2), 2 * (x9 * x10 + x7 * x8)],
           [2 * (x8 * x10 + x7 * x9), 2 * (x9 * x10 - x7 * x8), 1 - 2 * (x8^2 + x9^2)]]) u))
          @ map ((*) 0.5) (mat_vec [[0, - x11, - x12, - x13], [x11, 0, x13, - x12],
           [x12, - x13, 0, x11], [x13, x12, - x11, 0]] (slice x 7 11))
          @ [0, u ! 2, - (u ! 1)]))"
    using m
    apply (simp add: x u self f_func_def Let_def slice_def mat_vec_def linalg_norm_def
        fdiv_def fsqrt_def sq3_not_neg)
    apply (simp add: field_simps power2_eq_square)
    done
  have J: "mat_vec (J_B self) [0, u ! 2, - (u ! 1)]
      = mat_vec [[0, 0, 0], [0, 0, 0.01], [0, - 0.01, 0]] u"
    by (simp add: self u mat_vec_def)
  show ?thesis
    using self C W S f J by blast
qed

theorem f_func_components_witness:
  "length [2, 0, 0, 0, 1, 2, 3, 1, 0, 0, 0, 0, 0, 0 :: real] = 14
   \<and> length [1, 0, 0 :: real] = 3
   \<and> [2, 0, 0, 0, 1, 2, 3, 1, 0, 0, 0, 0, 0, 0 :: real] ! 0 \<noteq> 0
   \<and> (\<exists>self rng' C W S.
      Rocket_Model_6DoF_init (\<lambda>n. 1 / 2) = Inr (self, rng')
    \<and> alpha_m self = 0.01 \<and> g_I self = [- 1, 0, 0]
    \<and> r_T_B self = [- 0.01, 0, 0]
    \<and> J_B self = [[0.01, 0, 0], [0, 0.01, 0], [0, 0, 0.01]]
    \<and> dir_cosine (slice [2, 0, 0, 0, 1, 2, 3, 1, 0, 0, 0, 0, 0, 0] 7 11) = Inr C
    \<and> omega (slice [2, 0, 0, 0, 1, 2, 3, 1, 0, 0, 0, 0, 0, 0] 11 14) = Inr W
    \<and> skew (r_T_B self) = Inr S
    \<and> f_func [2, 0, 0, 0, 1, 2, 3, 1, 0, 0, 0, 0, 0, 0] [1, 0, 0] = Inr (map (\<lambda>v. [Some v])
         ([- alpha_m self * linalg_norm [1, 0, 0]]
          @ slice [2, 0, 0, 0, 1, 2, 3, 1, 0, 0, 0, 0, 0, 0] 4 7
          @ map2 (+) (g_I self)
              (map (\<lambda>c. c / [2, 0, 0, 0, 1, 2, 3, 1, 0, 0, 0, 0, 0, 0] ! 0)
                 (mat_vec (transpose C) [1, 0, 0]))
          @ map ((*) 0.5) (mat_vec W (slice [2, 0, 0, 0, 1, 2, 3, 1, 0, 0, 0, 0, 0, 0] 7 11))
          @ [0, [1, 0, 0] ! 2, - ([1, 0, 0] ! 1)]))
    \<and> mat_vec (J_B self) [0, [1, 0, 0] ! 2, - ([1, 0, 0] ! 1)] = mat_vec S [1, 0, 0])"
proof -
  have h: "length [2, 0, 0, 0, 1, 2, 3, 1, 0, 0, 0, 0, 0, 0 :: real] = 14"
    "length [1, 0, 0 :: real] = 3"
    "[2, 0, 0, 0, 1, 2, 3, 1, 0, 0, 0, 0, 0, 0 :: real] ! 0 \<noteq> 0"
    by simp_all
  show ?thesis
    using h f_func_components[OF h, of "\<lambda>n. 1 / 2"] by blast
qed

subsection \<open>Construction and the scenario\<close>

text \<open>
  C9, as the claim states it, fails: no generator gives a model with dry mass 2.2,
  wet mass 3.0, initial position \<open>(3.5, 0, 0)\<close>, zero initial velocity, identity initial
  attitude, zero initial angular rate and a final state that is zero except for the mass.
\<close>

theorem scenario_counterexample:
  "\<not> (\<exists>g self g'. valid_rng g \<and> Rocket_Model_6DoF_init g = Inr (self, g')
        \<and> m_dry self = 2.2 \<and> m_wet self = 3.0
        \<and> r_I_init self = [3.5, 0, 0] \<and> v_I_init self = [0, 0, 0]
        \<and> q_B_I_init self = [1, 0, 0, 0] \<and> w_B_init self = [0, 0, 0]
        \<and> drop 1 (x_final self) = replicate 13 0)"
proof
  assume "\<exists>g self g'. valid_rng g \<and> Rocket_Model_6DoF_init g = Inr (self, g')
        \<and> m_dry self = 2.2 \<and> m_wet self = 3.0
        \<and> r_I_init self = [3.5, 0, 0] \<and> v_I_init self = [0, 0, 0]
        \<and> q_B_I_init self = [1, 0, 0, 0] \<and> w_B_init self = [0, 0, 0]
        \<and> drop 1 (x_final self) = replicate 13 0"
  then obtain g self g' where i: "Rocket_Model_6DoF_init g = Inr (self, g')"
    and f: "drop 1 (x_final self) = replicate 13 0"
    by blast
  obtain self' where "Rocket_Model_6DoF_init g = Inr (self', \<lambda>n. g (n + 10))"
    and "x_final self' = [2.2, 0, 0, 0, - 0.1, 0, 0, 1, 0, 0, 0, 0, 0, 0]"
    using init_model_fields[of g] by auto
  with i have "x_final self = [2.2, 0, 0, 0, - 0.1, 0, 0, 1, 0, 0, 0, 0, 0, 0]"
    by simp
  with f show False
    by (simp add: eval_nat_numeral)
qed

text \<open>
  C9, amended. Every constructed model has dry mass 2.2 and wet mass 3.0, and its final
  state is the dry mass, position zero, velocity \<open>(-0.1, 0, 0)\<close>, attitude \<open>(1, 0, 0, 0)\<close>
  and angular rate zero. For every valid generator the first component of the initial
  velocity lies in \<open>[-1, -0.5)\<close>. For the generator whose variates are all 1/2 the initial
  position is \<open>(3.5, 0, 0)\<close>, the initial velocity is \<open>(-0.75, 0, 0)\<close>, the initial attitude
  is the identity and the initial angular rate is zero.
\<close>

theorem scenario_amended:
  "(\<forall>g. valid_rng g \<longrightarrow>
      (\<exists>self g'. Rocket_Model_6DoF_init g = Inr (self, g')
         \<and> m_dry self = 2.2 \<and> m_wet self = 3.0
         \<and> x_final self = [2.2, 0, 0, 0, - 0.1, 0, 0, 1, 0, 0, 0, 0, 0, 0]
         \<and> - 1 \<le> v_I_init self ! 0 \<and> v_I_init self ! 0 < - 0.5))
   \<and> (\<exists>g self g'. valid_rng g \<and> Rocket_Model_6DoF_init g = Inr (self, g')
         \<and> r_I_init self = [3.5, 0, 0] \<and> v_I_init self = [- 0.75, 0, 0]
         \<and> q_B_I_init self = [1, 0, 0, 0] \<and> w_B_init self = [0, 0, 0]
         \<and> x_init self = [3.0, 3.5, 0, 0, - 0.75, 0, 0, 1, 0, 0, 0, 0, 0, 0])"
proof (intro conjI allI impI)
  fix g :: rng
  assume v: "valid_rng g"
  then have g3: "0 \<le> g 3" "g 3 < 1"
    by (simp_all add: valid_rng_def)
  obtain self where s: "Rocket_Model_6DoF_init g = Inr (self, \<lambda>n. g (n + 10))"
    "m_wet self = 3" "m_dry self = 2.2"
    "x_final self = [2.2, 0, 0, 0, - 0.1, 0, 0, 1, 0, 0, 0, 0, 0, 0]"
    "v_I_init self = [- 1 + 0.5 * g 3, (- 0.5 + 0.3 * g 4) * (- 2 + 4 * g 1),
                          (- 0.5 + 0.3 * g 5) * (- 2 + 4 * g 2)]"
    using init_model_fields[of g] by auto
  have "- 1 \<le> v_I_init self ! 0" "v_I_init self ! 0 < - 0.5"
    using g3 by (simp_all add: s)
  then show "\<exists>self g'. Rocket_Model_6DoF_init g = Inr (self, g')
         \<and> m_dry self = 2.2 \<and> m_wet self = 3.0
         \<and> x_final self = [2.2, 0, 0, 0, - 0.1, 0, 0, 1, 0, 0, 0, 0, 0, 0]
         \<and> - 1 \<le> v_I_init self ! 0 \<and> v_I_init self ! 0 < - 0.5"
    using s by auto
next
  let ?g = "(\<lambda>n. 1 / 2) :: rng"
  have v: "valid_rng ?g"
    by (simp add: valid_rng_def)
  obtain self where s: "Rocket_Model_6DoF_init ?g = Inr (self, \<lambda>n. ?g (n + 10))"
    and f: "r_I_init self = [3.5, 0, 0]" "v_I_init self = [- 0.75, 0, 0]"
    "q_B_I_init self = [1, 0, 0, 0]" "w_B_init self = [0, 0, 0]"
    "x_init self = [3.0, 3.5, 0, 0, - 0.75, 0, 0, 1, 0, 0, 0, 0, 0, 0]"
    using init_model_fields[of ?g]
    by (auto simp: deg2rad_zero)
  show "\<exists>g self g'. valid_rng g \<and> Rocket_Model_6DoF_init g = Inr (self, g')
         \<and> r_I_init self = [3.5, 0, 0] \<and> v_I_init self = [- 0.75, 0, 0]
         \<and> q_B_I_init self = [1, 0, 0, 0] \<and> w_B_init self = [0, 0, 0]
         \<and> x_init self = [3.0, 3.5, 0, 0, - 0.75, 0, 0, 1, 0, 0, 0, 0, 0, 0]"
    using v s f by blast
qed

theorem scenario_amended_witness:
  "valid_rng (\<lambda>n. 1 / 2)
   \<and> (\<exists>self g'. Rocket_Model_6DoF_init (\<lambda>n. 1 / 2) = Inr (self, g')
         \<and> m_dry self = 2.2 \<and> m_wet self = 3.0
         \<and> x_final self = [2.2, 0, 0, 0, - 0.1, 0, 0, 1, 0, 0, 0, 0, 0, 0]
         \<and> - 1 \<le> v_I_init self ! 0 \<and> v_I_init self ! 0 < - 0.5)"
proof -
  have v: "valid_rng (\<lambda>n. 1 / 2)"
    by (simp add: valid_rng_def)
  show ?thesis
    using v scenario_amended by blast
qed

subsection \<open>The initial guess\<close>

lemma seq_Inr: "seq (Inr v) f = f v"
  by (simp add: seq_def)

lemma seq_Inl: "seq (Inl e) f = Inl e"
  by (simp add: seq_def)

lemma broadcast2_same: "length a = length b \<Longrightarrow> broadcast2 f a b = Inr (map2 f a b)"
  by (simp add: broadcast2_def)

lemma length_slice: "b \<le> length xs \<Longrightarrow> length (slice xs a b) = b - a"
  by (simp add: slice_def)

text \<open>The column that the loop body of \<open>initialize_trajectory\<close> writes at index \<open>k\<close>.\<close>

lemma initialize_trajectory_body_eq:
  assumes "length (x_init self) = 14" "length (x_final self) = 14" "length (g_I self) = 3"
    and "k < length X" "length (X ! k) = 14" "k < length U" "length (U ! k) = 3"
  shows "initialize_trajectory_body self K k (X, U) =
    Inr (X[k := [(real K - real k) / real K * x_init self ! 0 + real k / real K * x_final self ! 0]
               @ map2 (+) (map ((*) ((real K - real k) / real K)) (slice (x_init self) 1 4))
                          (map ((*) (real k / real K)) (slice (x_final self) 1 4))
               @ map2 (+) (map ((*) ((real K - real k) / real K)) (slice (x_init self) 4 7))
                          (map ((*) (real k / real K)) (slice (x_final self) 4 7))
               @ [1, 0, 0, 0]
               @ map2 (+) (map ((*) ((real K - real k) / real K)) (slice (x_init self) 11 14))
                          (map ((*) (real k / real K)) (slice (x_final self) 11 14))],
         U[k := map ((*) ((real K - real k) / real K * x_init self ! 0
                          + real k / real K * x_final self ! 0))
                    (map uminus (g_I self))])"
  using assms
  by (simp add: initialize_trajectory_body_def Let_def broadcast2_same length_slice seq_Inr
      set_col_def broadcast2_def)


text \<open>
  A loop over \<open>range(K)\<close> whose body overwrites column \<open>k\<close> of two arrays leaves, from
  index \<open>i\<close> on, exactly the columns that it writes.
\<close>

lemma for_loop_columns:
  fixes body :: "nat \<Rightarrow> array2 \<times> array2 \<Rightarrow> error + (array2 \<times> array2)"
  assumes body: "\<And>k X U. k < K \<Longrightarrow> length X = K \<Longrightarrow> length U = K
      \<Longrightarrow> (\<forall>j<K. length (X ! j) = n) \<Longrightarrow> (\<forall>j<K. length (U ! j) = p)
      \<Longrightarrow> body k (X, U) = Inr (X[k := cx k], U[k := cu k])"
    and len: "\<And>k. k < K \<Longrightarrow> length (cx k) = n \<and> length (cu k) = p"
  shows "length X = K \<Longrightarrow> length U = K \<Longrightarrow> (\<forall>j<K. length (X ! j) = n)
      \<Longrightarrow> (\<forall>j<K. length (U ! j) = p) \<Longrightarrow> i \<le> K
      \<Longrightarrow> for_loop body [i..<K] (X, U)
          = Inr (take i X @ map cx [i..<K], take i U @ map cu [i..<K])"
proof (induction "K - i" arbitrary: i X U)
  case 0
  then show ?case by simp
next
  case (Suc d)
  then have i: "i < K" by simp
  let ?X = "X[i := cx i]" and ?U = "U[i := cu i]"
  have b: "body i (X, U) = Inr (?X, ?U)"
    using body[OF i Suc.prems(1,2,3,4)] .
  have lX: "\<forall>j<K. length (?X ! j) = n"
  proof (intro allI impI)
    fix j assume j: "j < K"
    show "length (?X ! j) = n"
      using j i Suc.prems(1,3) len[OF i] by (cases "j = i") simp_all
  qed
  have lU: "\<forall>j<K. length (?U ! j) = p"
  proof (intro allI impI)
    fix j assume j: "j < K"
    show "length (?U ! j) = p"
      using j i Suc.prems(2,4) len[OF i] by (cases "j = i") simp_all
  qed
  have d: "d = K - Suc i"
    using Suc.hyps(2) by simp
  have ih: "for_loop body [Suc i..<K] (?X, ?U)
      = Inr (take (Suc i) ?X @ map cx [Suc i..<K], take (Suc i) ?U @ map cu [Suc i..<K])"
    using Suc.hyps(1)[OF d _ _ lX lU] Suc.prems(1,2) i by simp
  have tX: "take (Suc i) ?X = take i X @ [cx i]"
    using i Suc.prems(1) by (simp add: take_Suc_conv_app_nth)
  have tU: "take (Suc i) ?U = take i U @ [cu i]"
    using i Suc.prems(2) by (simp add: take_Suc_conv_app_nth)
  show ?case
    using i by (simp add: upt_conv_Cons b seq_Inr ih tX tU)
qed

lemma initialize_trajectory_eq:
  assumes "length (x_init self) = 14" "length (x_final self) = 14" "length (g_I self) = 3"
    and "\<forall>j<length X. length (X ! j) = 14" "length U = length X"
    and "\<forall>j<length X. length (U ! j) = 3"
  shows "initialize_trajectory self X U =
    Inr (map (\<lambda>k. [(real (length X) - real k) / real (length X) * x_init self ! 0
                      + real k / real (length X) * x_final self ! 0]
               @ map2 (+) (map ((*) ((real (length X) - real k) / real (length X)))
                               (slice (x_init self) 1 4))
                          (map ((*) (real k / real (length X))) (slice (x_final self) 1 4))
               @ map2 (+) (map ((*) ((real (length X) - real k) / real (length X)))
                               (slice (x_init self) 4 7))
                          (map ((*) (real k / real (length X))) (slice (x_final self) 4 7))
               @ [1, 0, 0, 0]
               @ map2 (+) (map ((*) ((real (length X) - real k) / real (length X)))
                               (slice (x_init self) 11 14))
                          (map ((*) (real k / real (length X))) (slice (x_final self) 11 14)))
             [0..<length X],
         map (\<lambda>k. map ((*) ((real (length X) - real k) / real (length X) * x_init self ! 0
                          + real k / real (length X) * x_final self ! 0))
                    (map uminus (g_I self)))
             [0..<length X])"
proof -
  have "for_loop (initialize_trajectory_body self (length X)) [0..<length X] (X, U) =
    Inr (take 0 X @ map (\<lambda>k. [(real (length X) - real k) / real (length X) * x_init self ! 0
                      + real k / real (length X) * x_final self ! 0]
               @ map2 (+) (map ((*) ((real (length X) - real k) / real (length X)))
                               (slice (x_init self) 1 4))
                          (map ((*) (real k / real (length X))) (slice (x_final self) 1 4))
               @ map2 (+) (map ((*) ((real (length X) - real k) / real (length X)))
                               (slice (x_init self) 4 7))
                          (map ((*) (real k / real (length X))) (slice (x_final self) 4 7))
               @ [1, 0, 0, 0]
               @ map2 (+) (map ((*) ((real (length X) - real k) / real (length X)))
                               (slice (x_init self) 11 14))
                          (map ((*) (real k / real (length X))) (slice (x_final self) 11 14)))
             [0..<length X],
         take 0 U @ map (\<lambda>k. map ((*) ((real (length X) - real k) / real (length X) * x_init self ! 0
                          + real k / real (length X) * x_final self ! 0))
                    (map uminus (g_I self)))
             [0..<length X])"
  proof (rule for_loop_columns[where n = 14 and p = 3])
    fix k and X' U' :: array2
    assume "k < length X" "length X' = length X" "length U' = length X"
      "\<forall>j<length X. length (X' ! j) = 14" "\<forall>j<length X. length (U' ! j) = 3"
    then show "initialize_trajectory_body self (length X) k (X', U') =
      Inr (X'[k := [(real (length X) - real k) / real (length X) * x_init self ! 0
                      + real k / real (length X) * x_final self ! 0]
               @ map2 (+) (map ((*) ((real (length X) - real k) / real (length X)))
                               (slice (x_init self) 1 4))
                          (map ((*) (real k / real (length X))) (slice (x_final self) 1 4))
               @ map2 (+) (map ((*) ((real (length X) - real k) / real (length X)))
                               (slice (x_init self) 4 7))
                          (map ((*) (real k / real (length X))) (slice (x_final self) 4 7))
               @ [1, 0, 0, 0]
               @ map2 (+) (map ((*) ((real (length X) - real k) / real (length X)))
                               (slice (x_init self) 11 14))
                          (map ((*) (real k / real (length X))) (slice (x_final self) 11 14))],
           U'[k := map ((*) ((real (length X) - real k) / real (length X) * x_init self ! 0
                          + real k / real (length X) * x_final self ! 0))
                    (map uminus (g_I self))])"
      using initialize_trajectory_body_eq[OF assms(1,2,3), of k X' U' "length X"] by simp
  next
    fix k assume "k < length X"
    show "length ([(real (length X) - real k) / real (length X) * x_init self ! 0
                      + real k / real (length X) * x_final self ! 0]
               @ map2 (+) (map ((*) ((real (length X) - real k) / real (length X)))
                               (slice (x_init self) 1 4))
                          (map ((*) (real k / real (length X))) (slice (x_final self) 1 4))
               @ map2 (+) (map ((*) ((real (length X) - real k) / real (length X)))
                               (slice (x_init self) 4 7))
                          (map ((*) (real k / real (length X))) (slice (x_final self) 4 7))
               @ [1, 0, 0, 0]
               @ map2 (+) (map ((*) ((real (length X) - real k) / real (length X)))
                               (slice (x_init self) 11 14))
                          (map ((*) (real k / real (length X))) (slice (x_final self) 11 14))) = 14
         \<and> length (map ((*) ((real (length X) - real k) / real (length X) * x_init self ! 0
                          + real k / real (length X) * x_final self ! 0))
                    (map uminus (g_I self))) = 3"
      using assms(1,2,3) by (simp add: length_slice)
  qed (use assms in simp_all)
  then show ?thesis
    by (simp add: initialize_trajectory_def Let_def)
qed


text \<open>
  C7. The code at \<open>K = 50\<close>, for the model built with the generator whose variates are all
  1/2 and arrays of zeros: the first point of the guess is the initial state, but the last
  point (\<open>k = 49\<close>) is not the final state: its weights are \<open>1/50\<close> and \<open>49/50\<close>, so its
  mass is 2.216 where the final mass is 2.2, and its velocity is \<open>(-0.113, 0, 0)\<close> where
  the final velocity is \<open>(-0.1, 0, 0)\<close>.
\<close>

theorem initialize_trajectory_last_point:
  "\<exists>self g' X' U'.
      Rocket_Model_6DoF_init (\<lambda>n. 1 / 2) = Inr (self, g')
    \<and> initialize_trajectory self (replicate 50 (replicate 14 0)) (replicate 50 (replicate 3 0))
        = Inr (X', U')
    \<and> x_init self = [3.0, 3.5, 0, 0, - 0.75, 0, 0, 1, 0, 0, 0, 0, 0, 0]
    \<and> x_final self = [2.2, 0, 0, 0, - 0.1, 0, 0, 1, 0, 0, 0, 0, 0, 0]
    \<and> X' ! 0 = x_init self
    \<and> X' ! 49 = [2.216, 0.07, 0, 0, - 0.113, 0, 0, 1, 0, 0, 0, 0, 0, 0]
    \<and> X' ! 49 \<noteq> x_final self"
proof -
  let ?g = "(\<lambda>n. 1 / 2) :: rng"
  let ?X = "replicate 50 (replicate 14 (0::real))"
  let ?U = "replicate 50 (replicate 3 (0::real))"
  obtain self where s: "Rocket_Model_6DoF_init ?g = Inr (self, \<lambda>n. ?g (n + 10))"
    and xi: "x_init self = [3.0, 3.5, 0, 0, - 0.75, 0, 0, 1, 0, 0, 0, 0, 0, 0]"
    and xf: "x_final self = [2.2, 0, 0, 0, - 0.1, 0, 0, 1, 0, 0, 0, 0, 0, 0]"
    and gI: "g_I self = [- 1, 0, 0]"
    using init_model_fields[of ?g]
    by (auto simp: deg2rad_zero)
  have l: "length (x_init self) = 14" "length (x_final self) = 14" "length (g_I self) = 3"
    "\<forall>j<length ?X. length (?X ! j) = 14" "length ?U = length ?X"
    "\<forall>j<length ?X. length (?U ! j) = 3"
    by (simp_all add: xi xf gI)
  obtain X' U' where r: "initialize_trajectory self ?X ?U = Inr (X', U')"
    and X0: "X' ! 0 = x_init self"
    and X49: "X' ! 49 = [2.216, 0.07, 0, 0, - 0.113, 0, 0, 1, 0, 0, 0, 0, 0, 0]"
    using initialize_trajectory_eq[OF l]
    by (simp add: xi xf slice_def del: upt.simps replicate.simps)
  have "X' ! 49 \<noteq> x_final self"
    by (simp add: X49 xf)
  then show ?thesis
    using s r xi xf X0 X49 by blast
qed

subsection \<open>The integrator and its seed\<close>

lemma length_eye_flat: "length (eye_flat n) = n * n"
  by (simp add: eye_flat_def length_concat comp_def sum_list_triv)

lemma slice_assign_mid:
  assumes "length vals = length ys"
  shows "slice_assign (xs @ ys @ zs) (length xs, length xs + length ys) vals
           = Inr (xs @ vals @ zs)"
  using assms by (simp add: slice_assign_def Let_def)

lemma slice_assign_eye:
  "slice_assign (replicate (n * (1 + n + p + p + 2)) 0) (n, n * (1 + n)) (eye_flat n)
     = Inr (replicate n 0 @ eye_flat n @ replicate (n * (p + p + 2)) 0)"
proof -
  have r: "replicate (n * (1 + n + p + p + 2)) (0::real)
      = replicate n 0 @ replicate (n * n) 0 @ replicate (n * (p + p + 2)) 0"
    by (simp add: replicate_add[symmetric] algebra_simps)
  have i: "(n, n * (1 + n))
      = (length (replicate n (0::real)),
         length (replicate n (0::real)) + length (replicate (n * n) (0::real)))"
    by simp
  show ?thesis
    unfolding r i by (rule slice_assign_mid) (simp add: length_eye_flat)
qed

lemma Integrator_init_eq:
  assumes "2 \<le> K"
  shows "Integrator_init m K = Inr
     \<lparr> int_K = K, int_m = m, int_n_x = n_x m, int_n_u = n_u m,
       A_bar = replicate (nat (K - 1)) (replicate (n_x m * n_x m) 0),
       B_bar = replicate (nat (K - 1)) (replicate (n_x m * n_u m) 0),
       C_bar = replicate (nat (K - 1)) (replicate (n_x m * n_u m) 0),
       S_bar = replicate (nat (K - 1)) (replicate (n_x m) 0),
       z_bar = replicate (nat (K - 1)) (replicate (n_x m) 0),
       x_ind = (0, n_x m),
       A_bar_ind = (n_x m, n_x m * (1 + n_x m)),
       B_bar_ind = (n_x m * (1 + n_x m), n_x m * (1 + n_x m + n_u m)),
       C_bar_ind = (n_x m * (1 + n_x m + n_u m), n_x m * (1 + n_x m + n_u m + n_u m)),
       S_bar_ind = (n_x m * (1 + n_x m + n_u m + n_u m),
                    n_x m * (1 + n_x m + n_u m + n_u m + 1)),
       z_bar_ind = (n_x m * (1 + n_x m + n_u m + n_u m + 1),
                    n_x m * (1 + n_x m + n_u m + n_u m + 2)),
       V0 = replicate (n_x m) 0 @ eye_flat (n_x m)
              @ replicate (n_x m * (n_u m + n_u m + 2)) 0,
       dt = 1 / real_of_int (K - 1) \<rparr>"
  using assms
  apply (simp only: Integrator_init_def Let_def slice_assign_eye)
  apply (simp add: zeros2_def seq_def)
  done

lemma slice_assign_front:
  assumes "length vals = length xs"
  shows "slice_assign (xs @ zs) (0, length xs) vals = Inr (vals @ zs)"
  using slice_assign_mid[of vals xs "[]" zs] assms by simp

text \<open>Shapes of the matrices of the loop body.\<close>

lemma reshape_Inr:
  assumes "length v = r * c"
  shows "\<exists>M. reshape v r c = Inr M \<and> length M = r \<and> (\<forall>row\<in>set M. length row = c)"
proof -
  have "i * c + c \<le> r * c" if "i < r" for i
  proof -
    have "Suc i * c \<le> r * c"
      using that by (intro mult_le_mono1) simp
    then show ?thesis
      by (simp add: add.commute)
  qed
  then have "min (r * c - i * c) c = c" if "i < r" for i
    using that by (metis add_diff_cancel_left' add.commute diff_le_mono min.absorb2)
  then show ?thesis
    using assms by (auto simp add: reshape_def slice_def)
qed

lemma ncols_eq:
  assumes "\<forall>row\<in>set M. length row = c" and "M \<noteq> []"
  shows "ncols M = c"
  using assms by (cases M) (simp_all add: ncols_def)

lemma length_flatten_F: "length (flatten_F M) = length M * ncols M"
  by (simp add: flatten_F_def length_concat comp_def sum_list_triv)

lemma length_flatten_F_rect:
  assumes "\<forall>row\<in>set M. length row = c"
  shows "length (flatten_F M) = length M * c"
proof (cases "M = []")
  case True
  then show ?thesis
    by (simp add: length_flatten_F)
next
  case False
  then show ?thesis
    using ncols_eq[OF assms] by (simp add: length_flatten_F)
qed

lemma matmul_shape:
  "length (matmul A B) = length A" "\<forall>row\<in>set (matmul A B). length row = ncols B"
  by (simp_all add: matmul_def)

lemma length_flatten_F_matmul:
  assumes "length A = n" and "length B = n" and "\<forall>row\<in>set B. length row = p"
  shows "length (flatten_F (matmul A B)) = n * p"
proof (cases "B = []")
  case True
  then show ?thesis
    using assms by (simp add: length_flatten_F matmul_shape)
next
  case False
  then show ?thesis
    using length_flatten_F_rect[OF matmul_shape(2), of A B] ncols_eq[OF assms(3)] assms(1)
    by (simp add: matmul_shape)
qed

lemma matmul_vec_Inr:
  assumes "\<forall>row\<in>set M. length row = length v"
  shows "matmul_vec M v = Inr (mat_vec M v)" "length (mat_vec M v) = length M"
  using assms by (simp_all add: matmul_vec_def mat_vec_def list_all_iff)

lemma set_col_shape:
  assumes "has_shape M (r, c)" and "k < c" and "length v = r"
  shows "\<exists>M'. set_col M k v = Inr M' \<and> has_shape M' (r, c)"
proof -
  have "length (M ! k) = r" "k < length M"
    using assms(1,2) by (auto simp add: has_shape_def list_all_iff)
  moreover have "has_shape (M[k := v]) (r, c)"
    using assms(1,3) set_update_subset_insert[of M k v]
    by (auto simp add: has_shape_def list_all_iff)
  ultimately show ?thesis
    using assms(3) by (simp add: set_col_def)
qed

lemma has_shape_zeros: "has_shape (replicate c (replicate r 0)) (r, c)"
  by (simp add: has_shape_def list_all_iff)

lemma seeded_init:
  assumes "2 \<le> K" and "Integrator_init m K = Inr I0"
  shows "seeded m K I0"
proof -
  let ?c = "nat (K - 1)"
  have "I0 = I0\<lparr>A_bar := replicate ?c (replicate (n_x m * n_x m) 0),
                 B_bar := replicate ?c (replicate (n_x m * n_u m) 0),
                 C_bar := replicate ?c (replicate (n_x m * n_u m) 0),
                 S_bar := replicate ?c (replicate (n_x m) 0),
                 z_bar := replicate ?c (replicate (n_x m) 0),
                 V0 := replicate (n_x m) 0 @ drop (n_x m) (V0 I0)\<rparr>"
    using assms(2) unfolding Integrator_init_eq[OF assms(1)] by auto
  then show ?thesis
    unfolding seeded_def using assms(2) has_shape_zeros
    by (metis length_replicate)
qed

text \<open>What an integrator object of the loop looks like.\<close>

lemma seeded_fields:
  assumes "2 \<le> K" and "seeded m K I"
  obtains xs where "length xs = n_x m"
    and "V0 I = xs @ eye_flat (n_x m) @ replicate (n_x m * (n_u m + n_u m + 2)) 0"
    and "x_ind I = (0, n_x m)"
    and "A_bar_ind I = (n_x m, n_x m * (1 + n_x m))"
    and "B_bar_ind I = (n_x m * (1 + n_x m), n_x m * (1 + n_x m + n_u m))"
    and "C_bar_ind I = (n_x m * (1 + n_x m + n_u m), n_x m * (1 + n_x m + n_u m + n_u m))"
    and "S_bar_ind I = (n_x m * (1 + n_x m + n_u m + n_u m),
                        n_x m * (1 + n_x m + n_u m + n_u m + 1))"
    and "z_bar_ind I = (n_x m * (1 + n_x m + n_u m + n_u m + 1),
                        n_x m * (1 + n_x m + n_u m + n_u m + 2))"
    and "dt I = 1 / real_of_int (K - 1)" and "int_K I = K"
    and "int_n_x I = n_x m" and "int_n_u I = n_u m"
    and "has_shape (A_bar I) (n_x m * n_x m, nat (K - 1))"
    and "has_shape (B_bar I) (n_x m * n_u m, nat (K - 1))"
    and "has_shape (C_bar I) (n_x m * n_u m, nat (K - 1))"
    and "has_shape (S_bar I) (n_x m, nat (K - 1))"
    and "has_shape (z_bar I) (n_x m, nat (K - 1))"
proof -
  obtain I0 xs A B C S z where i: "Integrator_init m K = Inr I0" and l: "length xs = n_x m"
    and h: "has_shape A (n_x m * n_x m, nat (K - 1))"
      "has_shape B (n_x m * n_u m, nat (K - 1))"
      "has_shape C (n_x m * n_u m, nat (K - 1))"
      "has_shape S (n_x m, nat (K - 1))"
      "has_shape z (n_x m, nat (K - 1))"
    and I: "I = I0\<lparr>A_bar := A, B_bar := B, C_bar := C, S_bar := S, z_bar := z,
                     V0 := xs @ drop (n_x m) (V0 I0)\<rparr>"
    using assms(2) unfolding seeded_def by blast
  show ?thesis
    using i l h that[of xs] unfolding I Integrator_init_eq[OF assms(1)] by auto
qed

text \<open>Writing the state block and the result arrays leaves an integrator object of the loop.\<close>

lemma seeded_update:
  assumes "2 \<le> K" and "seeded m K I" and "length xs = n_x m"
    and "has_shape A (n_x m * n_x m, nat (K - 1))"
    and "has_shape B (n_x m * n_u m, nat (K - 1))"
    and "has_shape C (n_x m * n_u m, nat (K - 1))"
    and "has_shape S (n_x m, nat (K - 1))"
    and "has_shape z (n_x m, nat (K - 1))"
  shows "seeded m K
     (I\<lparr>V0 := xs @ eye_flat (n_x m) @ replicate (n_x m * (n_u m + n_u m + 2)) 0,
        A_bar := A, B_bar := B, C_bar := C, S_bar := S, z_bar := z\<rparr>)"
proof -
  obtain I0 xs0 A0 B0 C0 S0 z0 where i: "Integrator_init m K = Inr I0"
    and I: "I = I0\<lparr>A_bar := A0, B_bar := B0, C_bar := C0, S_bar := S0, z_bar := z0,
                     V0 := xs0 @ drop (n_x m) (V0 I0)\<rparr>"
    using assms(2) unfolding seeded_def by blast
  have "I\<lparr>V0 := xs @ eye_flat (n_x m) @ replicate (n_x m * (n_u m + n_u m + 2)) 0,
        A_bar := A, B_bar := B, C_bar := C, S_bar := S, z_bar := z\<rparr>
      = I0\<lparr>A_bar := A, B_bar := B, C_bar := C, S_bar := S, z_bar := z,
           V0 := xs @ drop (n_x m) (V0 I0)\<rparr>"
    using i unfolding I Integrator_init_eq[OF assms(1)] by auto
  then show ?thesis
    unfolding seeded_def using i assms(3-8) by blast
qed

text \<open>The blocks of a vector of the augmented dimension.\<close>

lemma block_lengths:
  fixes V :: "real list" and n p :: nat
  assumes "length V = n * (1 + n + p + p + 2)"
  shows "length (slice V n (n * (1 + n))) = n * n"
    and "length (slice V (n * (1 + n)) (n * (1 + n + p))) = n * p"
    and "length (slice V (n * (1 + n + p)) (n * (1 + n + p + p))) = n * p"
    and "length (slice V (n * (1 + n + p + p)) (n * (1 + n + p + p + 1))) = n"
    and "length (slice V (n * (1 + n + p + p + 1)) (n * (1 + n + p + p + 2))) = n"
  using assms by (simp_all add: slice_def algebra_simps min_def)

lemma store_discretization_seeded:
  assumes K: "2 \<le> K" and sd: "seeded m K I" and k: "k < nat (K - 1)"
    and V: "length V = n_x m * (1 + n_x m + n_u m + n_u m + 2)"
  shows "\<exists>A B C S z. store_discretization I k V
           = Inr (I\<lparr>A_bar := A, B_bar := B, C_bar := C, S_bar := S, z_bar := z\<rparr>)
      \<and> has_shape A (n_x m * n_x m, nat (K - 1))
      \<and> has_shape B (n_x m * n_u m, nat (K - 1))
      \<and> has_shape C (n_x m * n_u m, nat (K - 1))
      \<and> has_shape S (n_x m, nat (K - 1))
      \<and> has_shape z (n_x m, nat (K - 1))"
proof -
  let ?n = "n_x m" and ?p = "n_u m"
  obtain xs where f: "A_bar_ind I = (?n, ?n * (1 + ?n))"
      "B_bar_ind I = (?n * (1 + ?n), ?n * (1 + ?n + ?p))"
      "C_bar_ind I = (?n * (1 + ?n + ?p), ?n * (1 + ?n + ?p + ?p))"
      "S_bar_ind I = (?n * (1 + ?n + ?p + ?p), ?n * (1 + ?n + ?p + ?p + 1))"
      "z_bar_ind I = (?n * (1 + ?n + ?p + ?p + 1), ?n * (1 + ?n + ?p + ?p + 2))"
      "int_n_x I = ?n" "int_n_u I = ?p"
    and h: "has_shape (A_bar I) (?n * ?n, nat (K - 1))"
      "has_shape (B_bar I) (?n * ?p, nat (K - 1))"
      "has_shape (C_bar I) (?n * ?p, nat (K - 1))"
      "has_shape (S_bar I) (?n, nat (K - 1))"
      "has_shape (z_bar I) (?n, nat (K - 1))"
    using seeded_fields[OF K sd] by metis
  note b = block_lengths[OF V]
  obtain Phi where Phi: "reshape (slice V ?n (?n * (1 + ?n))) ?n ?n = Inr Phi"
    "length Phi = ?n" "\<forall>row\<in>set Phi. length row = ?n"
    using reshape_Inr[OF b(1)] by blast
  obtain Bm where Bm: "reshape (slice V (?n * (1 + ?n)) (?n * (1 + ?n + ?p))) ?n ?p = Inr Bm"
    "length Bm = ?n" "\<forall>row\<in>set Bm. length row = ?p"
    using reshape_Inr[OF b(2)] by blast
  obtain Cm where Cm:
    "reshape (slice V (?n * (1 + ?n + ?p)) (?n * (1 + ?n + ?p + ?p))) ?n ?p = Inr Cm"
    "length Cm = ?n" "\<forall>row\<in>set Cm. length row = ?p"
    using reshape_Inr[OF b(3)] by blast
  let ?S = "slice V (?n * (1 + ?n + ?p + ?p)) (?n * (1 + ?n + ?p + ?p + 1))"
  let ?z = "slice V (?n * (1 + ?n + ?p + ?p + 1)) (?n * (1 + ?n + ?p + ?p + 2))"
  have Sv: "matmul_vec Phi ?S = Inr (mat_vec Phi ?S)" "length (mat_vec Phi ?S) = ?n"
    using matmul_vec_Inr[of Phi ?S] Phi(2,3) b(4) by simp_all
  have zv: "matmul_vec Phi ?z = Inr (mat_vec Phi ?z)" "length (mat_vec Phi ?z) = ?n"
    using matmul_vec_Inr[of Phi ?z] Phi(2,3) b(5) by simp_all
  have lA: "length (flatten_F Phi) = ?n * ?n"
    using length_flatten_F_rect[OF Phi(3)] Phi(2) by simp
  have lB: "length (flatten_F (matmul Phi Bm)) = ?n * ?p"
    using Phi(2) Bm(2,3) by (rule length_flatten_F_matmul)
  have lC: "length (flatten_F (matmul Phi Cm)) = ?n * ?p"
    using Phi(2) Cm(2,3) by (rule length_flatten_F_matmul)
  obtain A where A: "set_col (A_bar I) k (flatten_F Phi) = Inr A"
    "has_shape A (?n * ?n, nat (K - 1))"
    using set_col_shape[OF h(1) k lA] by blast
  obtain B where B: "set_col (B_bar I) k (flatten_F (matmul Phi Bm)) = Inr B"
    "has_shape B (?n * ?p, nat (K - 1))"
    using set_col_shape[OF h(2) k lB] by blast
  obtain C where C: "set_col (C_bar I) k (flatten_F (matmul Phi Cm)) = Inr C"
    "has_shape C (?n * ?p, nat (K - 1))"
    using set_col_shape[OF h(3) k lC] by blast
  obtain S where S: "set_col (S_bar I) k (mat_vec Phi ?S) = Inr S"
    "has_shape S (?n, nat (K - 1))"
    using set_col_shape[OF h(4) k Sv(2)] by blast
  obtain z where z: "set_col (z_bar I) k (mat_vec Phi ?z) = Inr z"
    "has_shape z (?n, nat (K - 1))"
    using set_col_shape[OF h(5) k zv(2)] by blast
  have "store_discretization I k V
      = Inr (I\<lparr>A_bar := A, B_bar := B, C_bar := C, S_bar := S, z_bar := z\<rparr>)"
    unfolding store_discretization_def f fst_conv snd_conv
    by (simp only: Phi(1) Bm(1) Cm(1) Sv(1) zv(1) A(1) B(1) C(1) S(1) z(1) seq_Inr)
  then show ?thesis
    using A(2) B(2) C(2) S(2) z(2) by blast
qed

text \<open>One pass of the loop body, from an integrator object of the loop.\<close>

lemma calculate_discretization_body_seeded:
  assumes K: "2 \<le> K" and sd: "seeded m K I" and k: "k < nat (K - 1)"
    and X: "k < length X" "length (X ! k) = n_x m" and U: "Suc k < length U"
    and od: "\<forall>c. length (odeint c) = length (y0 c)"
  shows "\<exists>I'. calculate_discretization_body odeint X U sigma k (I, calls) =
       Inr (I', calls @ [\<lparr> y0 = X ! k @ eye_flat (n_x m)
                                 @ replicate (n_x m * (n_u m + n_u m + 2)) 0,
                           t_span = (0, 1 / real_of_int (K - 1)),
                           args = (U ! k, U ! Suc k, sigma) \<rparr>])
     \<and> seeded m K I'"
proof -
  let ?rest = "eye_flat (n_x m) @ replicate (n_x m * (n_u m + n_u m + 2)) 0"
  let ?c = "\<lparr> y0 = X ! k @ ?rest, t_span = (0, 1 / real_of_int (K - 1)),
              args = (U ! k, U ! Suc k, sigma) \<rparr>"
  obtain xs where xs: "length xs = n_x m" and V: "V0 I = xs @ ?rest"
    and xi: "x_ind I = (0, n_x m)" and dt: "dt I = 1 / real_of_int (K - 1)"
    and h: "has_shape (A_bar I) (n_x m * n_x m, nat (K - 1))"
      "has_shape (B_bar I) (n_x m * n_u m, nat (K - 1))"
      "has_shape (C_bar I) (n_x m * n_u m, nat (K - 1))"
      "has_shape (S_bar I) (n_x m, nat (K - 1))"
      "has_shape (z_bar I) (n_x m, nat (K - 1))"
    using seeded_fields[OF K sd] by metis
  define I1 where "I1 = I\<lparr>V0 := X ! k @ ?rest\<rparr>"
  have a: "slice_assign (V0 I) (x_ind I) (X ! k) = Inr (X ! k @ ?rest)"
    unfolding V xi using slice_assign_front[of "X ! k" xs ?rest] X(2) xs by simp
  have "I1 = I\<lparr>V0 := X ! k @ ?rest, A_bar := A_bar I, B_bar := B_bar I, C_bar := C_bar I,
                S_bar := S_bar I, z_bar := z_bar I\<rparr>"
    by (simp add: I1_def)
  then have s1: "seeded m K I1"
    using seeded_update[OF K sd X(2) h] by simp
  have l: "length (odeint ?c) = n_x m * (1 + n_x m + n_u m + n_u m + 2)"
    using od X(2) by (simp add: length_eye_flat algebra_simps)
  obtain A B C S z where st: "store_discretization I1 k (odeint ?c)
           = Inr (I1\<lparr>A_bar := A, B_bar := B, C_bar := C, S_bar := S, z_bar := z\<rparr>)"
    and h': "has_shape A (n_x m * n_x m, nat (K - 1))"
      "has_shape B (n_x m * n_u m, nat (K - 1))"
      "has_shape C (n_x m * n_u m, nat (K - 1))"
      "has_shape S (n_x m, nat (K - 1))"
      "has_shape z (n_x m, nat (K - 1))"
    using store_discretization_seeded[OF K s1 k l] by blast
  have "I1\<lparr>A_bar := A, B_bar := B, C_bar := C, S_bar := S, z_bar := z\<rparr>
      = I\<lparr>V0 := X ! k @ ?rest, A_bar := A, B_bar := B, C_bar := C, S_bar := S, z_bar := z\<rparr>"
    by (simp add: I1_def)
  then have s2: "seeded m K (I1\<lparr>A_bar := A, B_bar := B, C_bar := C, S_bar := S, z_bar := z\<rparr>)"
    using seeded_update[OF K sd X(2) h'] by simp
  have g: "get_col X k = Inr (X ! k)" "get_col U k = Inr (U ! k)"
    "get_col U (k + 1) = Inr (U ! Suc k)"
    using X(1) U by (simp_all add: get_col_def)
  have v: "V0 I1 = X ! k @ ?rest" "dt I1 = 1 / real_of_int (K - 1)"
    by (simp_all add: I1_def dt)
  have "calculate_discretization_body odeint X U sigma k (I, calls) =
       Inr (I1\<lparr>A_bar := A, B_bar := B, C_bar := C, S_bar := S, z_bar := z\<rparr>, calls @ [?c])"
    by (simp only: calculate_discretization_body_def Let_def fst_conv snd_conv g seq_Inr a
        I1_def[symmetric] v st)
  then show ?thesis
    using s2 by blast
qed

lemma discretization_loop:
  assumes K: "2 \<le> K" and X: "\<forall>k<nat (K - 1). length (X ! k) = n_x m"
    "nat (K - 1) \<le> length X" and U: "nat (K - 1) < length U"
    and od: "\<forall>c. length (odeint c) = length (y0 c)"
  shows "seeded m K I \<Longrightarrow> i \<le> nat (K - 1) \<Longrightarrow>
    \<exists>I'. for_loop (calculate_discretization_body odeint X U sigma) [i..<nat (K - 1)] (I, calls)
        = Inr (I', calls @ map (\<lambda>k. \<lparr> y0 = X ! k @ eye_flat (n_x m)
                                            @ replicate (n_x m * (n_u m + n_u m + 2)) 0,
                                      t_span = (0, 1 / real_of_int (K - 1)),
                                      args = (U ! k, U ! Suc k, sigma) \<rparr>) [i..<nat (K - 1)])
      \<and> seeded m K I'"
proof (induction "nat (K - 1) - i" arbitrary: i I calls)
  case 0
  then show ?case
    by simp
next
  case (Suc d)
  let ?c = "\<lambda>k. \<lparr> y0 = X ! k @ eye_flat (n_x m) @ replicate (n_x m * (n_u m + n_u m + 2)) 0,
                   t_span = (0, 1 / real_of_int (K - 1)),
                   args = (U ! k, U ! Suc k, sigma) \<rparr>"
  have i: "i < nat (K - 1)"
    using Suc.hyps(2) by simp
  have x: "i < length X" "length (X ! i) = n_x m" "Suc i < length U"
    using i X U by simp_all
  obtain I1 where b: "calculate_discretization_body odeint X U sigma i (I, calls)
      = Inr (I1, calls @ [?c i])" and s1: "seeded m K I1"
    using calculate_discretization_body_seeded[OF K Suc.prems(1) i x od, of sigma calls]
    by blast
  have d: "d = nat (K - 1) - Suc i"
    using Suc.hyps(2) by simp
  obtain I' where r: "for_loop (calculate_discretization_body odeint X U sigma)
        [Suc i..<nat (K - 1)] (I1, calls @ [?c i])
      = Inr (I', (calls @ [?c i]) @ map ?c [Suc i..<nat (K - 1)])" and s': "seeded m K I'"
    using Suc.hyps(1)[OF d s1, of "calls @ [?c i]"] i by auto
  have u: "[i..<nat (K - 1)] = i # [Suc i..<nat (K - 1)]"
    using i by (simp add: upt_conv_Cons)
  have "for_loop (calculate_discretization_body odeint X U sigma) [i..<nat (K - 1)] (I, calls)
      = Inr (I', calls @ map ?c [i..<nat (K - 1)])"
    by (simp only: u for_loop.simps b seq_Inr r list.map append_assoc append_Cons append_Nil)
  then show ?case
    using s' by blast
qed

lemma calculate_discretization_calls:
  assumes "2 \<le> K" and "length X = nat K" and "\<forall>k<nat K. length (X ! k) = n_x m"
    and "length U = nat K" and "\<forall>c. length (odeint c) = length (y0 c)"
    and "seeded m K I"
  shows "\<exists>I' calls. calculate_discretization odeint I X U sigma = Inr (I', calls)
      \<and> seeded m K I' \<and> length calls = nat (K - 1)
      \<and> (\<forall>k<nat (K - 1).
           y0 (calls ! k) = X ! k @ eye_flat (n_x m)
                              @ replicate (n_x m * (n_u m + n_u m + 2)) 0
         \<and> t_span (calls ! k) = (0, 1 / real_of_int (K - 1))
         \<and> args (calls ! k) = (U ! k, U ! Suc k, sigma))"
proof -
  have IK: "int_K I = K"
    using seeded_fields[OF assms(1,6)] by metis
  have a: "\<forall>k<nat (K - 1). length (X ! k) = n_x m" "nat (K - 1) \<le> length X"
    "nat (K - 1) < length U"
    using assms(1,2,3,4) by auto
  obtain I' where
    r: "for_loop (calculate_discretization_body odeint X U sigma) [0..<nat (K - 1)] (I, [])
      = Inr (I', [] @ map (\<lambda>k. \<lparr> y0 = X ! k @ eye_flat (n_x m)
                                            @ replicate (n_x m * (n_u m + n_u m + 2)) 0,
                                      t_span = (0, 1 / real_of_int (K - 1)),
                                      args = (U ! k, U ! Suc k, sigma) \<rparr>) [0..<nat (K - 1)])"
    and s: "seeded m K I'"
    using discretization_loop[OF assms(1) a assms(5,6), of 0 sigma "[]"] by auto
  show ?thesis
    using r s by (simp add: calculate_discretization_def IK)
qed

text \<open>The blocks of a seed, read with the index pairs of the integrator.\<close>

lemma seed_blocks:
  fixes xk :: "real list" and p :: nat
  assumes "length xk = n"
    and y: "y = xk @ eye_flat n @ replicate (n * (p + p + 2)) 0"
  shows "length y = n * (1 + n + 2 * p + 2)"
    and "slice y 0 n = xk"
    and "slice y n (n * (1 + n)) = eye_flat n"
    and "slice y (n * (1 + n)) (n * (1 + n + p)) = replicate (n * p) 0"
    and "slice y (n * (1 + n + p)) (n * (1 + n + p + p)) = replicate (n * p) 0"
    and "slice y (n * (1 + n + p + p)) (n * (1 + n + p + p + 1)) = replicate n 0"
    and "slice y (n * (1 + n + p + p + 1)) (n * (1 + n + p + p + 2)) = replicate n 0"
    and "n * (1 + n + p + p + 2) = length y"
  using assms(1) unfolding y
  by (simp_all add: slice_def length_eye_flat algebra_simps min_def)

text \<open>
  C3. For \<open>K \<ge> 2\<close>, trajectory arrays with \<open>K\<close> columns, those of \<open>X\<close> of dimension
  \<open>n_x\<close>, and an external integrator that returns a vector of the dimension of its seed,
  as \<open>odeint\<close> does: the constructor returns an integrator object; and from every
  integrator object that can occur, \<open>calculate_discretization\<close> makes \<open>K - 1\<close> calls of
  the external integrator and leaves an object that can occur, so that the following
  holds in every later call as well. In call \<open>k\<close> the seed has dimension
  \<open>n_x (1 + n_x + 2 n_u + 2)\<close>, its state block is \<open>X[:, k]\<close>, its transition-matrix block
  is the flattened identity, its blocks for the two control influences, the duration
  sensitivity and the defect are zero and end where the seed ends, the two time points
  are 0 and \<open>dt = 1 / (K - 1)\<close>, which are the scaled times 0 and 1, and the extra
  arguments are \<open>U[:, k]\<close>, \<open>U[:, k + 1]\<close> and \<open>sigma\<close>.
\<close>

theorem discretization_seed:
  assumes "2 \<le> K" and "length X = nat K" and "\<forall>k<nat K. length (X ! k) = n_x m"
    and "length U = nat K" and "\<forall>c. length (odeint c) = length (y0 c)"
  shows "\<exists>I0. Integrator_init m K = Inr I0 \<and> seeded m K I0
    \<and> (\<forall>I. seeded m K I \<longrightarrow>
         (\<exists>I' calls. calculate_discretization odeint I X U sigma = Inr (I', calls)
            \<and> seeded m K I' \<and> length calls = nat (K - 1)
            \<and> (\<forall>k<nat (K - 1).
                 length (y0 (calls ! k)) = n_x m * (1 + n_x m + 2 * n_u m + 2)
               \<and> slice (y0 (calls ! k)) (fst (x_ind I)) (snd (x_ind I)) = X ! k
               \<and> slice (y0 (calls ! k)) (fst (A_bar_ind I)) (snd (A_bar_ind I))
                   = eye_flat (n_x m)
               \<and> slice (y0 (calls ! k)) (fst (B_bar_ind I)) (snd (B_bar_ind I))
                   = replicate (n_x m * n_u m) 0
               \<and> slice (y0 (calls ! k)) (fst (C_bar_ind I)) (snd (C_bar_ind I))
                   = replicate (n_x m * n_u m) 0
               \<and> slice (y0 (calls ! k)) (fst (S_bar_ind I)) (snd (S_bar_ind I))
                   = replicate (n_x m) 0
               \<and> slice (y0 (calls ! k)) (fst (z_bar_ind I)) (snd (z_bar_ind I))
                   = replicate (n_x m) 0
               \<and> snd (z_bar_ind I) = length (y0 (calls ! k))
               \<and> t_span (calls ! k) = (0, dt I) \<and> dt I = 1 / real_of_int (K - 1)
               \<and> tau I (fst (t_span (calls ! k))) = 0
               \<and> tau I (snd (t_span (calls ! k))) = 1
               \<and> args (calls ! k) = (U ! k, U ! Suc k, sigma))))"
proof -
  obtain I0 where I0: "Integrator_init m K = Inr I0"
    using Integrator_init_eq[OF assms(1)] by blast
  have s0: "seeded m K I0"
    using assms(1) I0 by (rule seeded_init)
  have step: "\<exists>I' calls. calculate_discretization odeint I X U sigma = Inr (I', calls)
            \<and> seeded m K I' \<and> length calls = nat (K - 1)
            \<and> (\<forall>k<nat (K - 1).
                 length (y0 (calls ! k)) = n_x m * (1 + n_x m + 2 * n_u m + 2)
               \<and> slice (y0 (calls ! k)) (fst (x_ind I)) (snd (x_ind I)) = X ! k
               \<and> slice (y0 (calls ! k)) (fst (A_bar_ind I)) (snd (A_bar_ind I))
                   = eye_flat (n_x m)
               \<and> slice (y0 (calls ! k)) (fst (B_bar_ind I)) (snd (B_bar_ind I))
                   = replicate (n_x m * n_u m) 0
               \<and> slice (y0 (calls ! k)) (fst (C_bar_ind I)) (snd (C_bar_ind I))
                   = replicate (n_x m * n_u m) 0
               \<and> slice (y0 (calls ! k)) (fst (S_bar_ind I)) (snd (S_bar_ind I))
                   = replicate (n_x m) 0
               \<and> slice (y0 (calls ! k)) (fst (z_bar_ind I)) (snd (z_bar_ind I))
                   = replicate (n_x m) 0
               \<and> snd (z_bar_ind I) = length (y0 (calls ! k))
               \<and> t_span (calls ! k) = (0, dt I) \<and> dt I = 1 / real_of_int (K - 1)
               \<and> tau I (fst (t_span (calls ! k))) = 0
               \<and> tau I (snd (t_span (calls ! k))) = 1
               \<and> args (calls ! k) = (U ! k, U ! Suc k, sigma))"
    if sd: "seeded m K I" for I
  proof -
    obtain I' calls where
      c: "calculate_discretization odeint I X U sigma = Inr (I', calls)"
      and s': "seeded m K I'" and l: "length calls = nat (K - 1)"
      and e: "\<forall>k<nat (K - 1).
           y0 (calls ! k) = X ! k @ eye_flat (n_x m)
                              @ replicate (n_x m * (n_u m + n_u m + 2)) 0
         \<and> t_span (calls ! k) = (0, 1 / real_of_int (K - 1))
         \<and> args (calls ! k) = (U ! k, U ! Suc k, sigma)"
      using calculate_discretization_calls[OF assms sd, of sigma] by blast
    obtain xs where f: "x_ind I = (0, n_x m)"
      "A_bar_ind I = (n_x m, n_x m * (1 + n_x m))"
      "B_bar_ind I = (n_x m * (1 + n_x m), n_x m * (1 + n_x m + n_u m))"
      "C_bar_ind I = (n_x m * (1 + n_x m + n_u m), n_x m * (1 + n_x m + n_u m + n_u m))"
      "S_bar_ind I = (n_x m * (1 + n_x m + n_u m + n_u m),
                        n_x m * (1 + n_x m + n_u m + n_u m + 1))"
      "z_bar_ind I = (n_x m * (1 + n_x m + n_u m + n_u m + 1),
                        n_x m * (1 + n_x m + n_u m + n_u m + 2))"
      and dt: "dt I = 1 / real_of_int (K - 1)"
      using seeded_fields[OF assms(1) sd] by metis
    have tau: "tau I 0 = 0" "tau I (1 / real_of_int (K - 1)) = 1"
      using assms(1) by (simp_all add: tau_def dt)
    have "length (y0 (calls ! k)) = n_x m * (1 + n_x m + 2 * n_u m + 2)
               \<and> slice (y0 (calls ! k)) (fst (x_ind I)) (snd (x_ind I)) = X ! k
               \<and> slice (y0 (calls ! k)) (fst (A_bar_ind I)) (snd (A_bar_ind I))
                   = eye_flat (n_x m)
               \<and> slice (y0 (calls ! k)) (fst (B_bar_ind I)) (snd (B_bar_ind I))
                   = replicate (n_x m * n_u m) 0
               \<and> slice (y0 (calls ! k)) (fst (C_bar_ind I)) (snd (C_bar_ind I))
                   = replicate (n_x m * n_u m) 0
               \<and> slice (y0 (calls ! k)) (fst (S_bar_ind I)) (snd (S_bar_ind I))
                   = replicate (n_x m) 0
               \<and> slice (y0 (calls ! k)) (fst (z_bar_ind I)) (snd (z_bar_ind I))
                   = replicate (n_x m) 0
               \<and> snd (z_bar_ind I) = length (y0 (calls ! k))
               \<and> t_span (calls ! k) = (0, dt I) \<and> dt I = 1 / real_of_int (K - 1)
               \<and> tau I (fst (t_span (calls ! k))) = 0
               \<and> tau I (snd (t_span (calls ! k))) = 1
               \<and> args (calls ! k) = (U ! k, U ! Suc k, sigma)"
      if k: "k < nat (K - 1)" for k
    proof -
      have lk: "length (X ! k) = n_x m"
        using assms(3) k by simp
      have y: "y0 (calls ! k) = X ! k @ eye_flat (n_x m)
                              @ replicate (n_x m * (n_u m + n_u m + 2)) 0"
        and t: "t_span (calls ! k) = (0, 1 / real_of_int (K - 1))"
        and a: "args (calls ! k) = (U ! k, U ! Suc k, sigma)"
        using e k by simp_all
      have t': "tau I (fst (t_span (calls ! k))) = 0" "tau I (snd (t_span (calls ! k))) = 1"
        unfolding t fst_conv snd_conv by (rule tau)+
      show ?thesis
        unfolding f fst_conv snd_conv
        using seed_blocks[OF lk y] t a t' dt by simp
    qed
    then show ?thesis
      using c s' l by blast
  qed
  show ?thesis
    using I0 s0 step by blast
qed

theorem discretization_seed_witness:
  "\<exists>self g'. Rocket_Model_6DoF_init (\<lambda>n. 1 / 2) = Inr (self, g')
     \<and> (2::int) \<le> 3
     \<and> length [replicate 14 1, replicate 14 2, replicate 14 (3::real)] = nat 3
     \<and> (\<forall>k<nat 3. length ([replicate 14 1, replicate 14 2, replicate 14 (3::real)] ! k)
            = n_x self)
     \<and> length (replicate 3 [1, 0, 0 :: real]) = nat 3
     \<and> (\<forall>c. length (y0 c) = length (y0 c))
     \<and> (\<exists>I0 I' calls. Integrator_init self 3 = Inr I0 \<and> seeded self 3 I0
          \<and> calculate_discretization y0 I0 [replicate 14 1, replicate 14 2, replicate 14 3]
               (replicate 3 [1, 0, 0]) 10 = Inr (I', calls)
          \<and> seeded self 3 I'
          \<and> length calls = 2
          \<and> length (y0 (calls ! 1)) = 322
          \<and> slice (y0 (calls ! 1)) 0 14 = replicate 14 2
          \<and> t_span (calls ! 1) = (0, 1 / 2)
          \<and> tau I0 (fst (t_span (calls ! 1))) = 0
          \<and> tau I0 (snd (t_span (calls ! 1))) = 1)"
proof -
  let ?X = "[replicate 14 1, replicate 14 2, replicate 14 (3::real)]"
  let ?U = "replicate 3 [1, 0, 0 :: real]"
  obtain self where s: "Rocket_Model_6DoF_init (\<lambda>n. 1 / 2) = Inr (self, \<lambda>n. 1 / 2)"
    and n: "n_x self = 14" "n_u self = 3"
    using init_model_fields[of "\<lambda>n. 1 / 2"] by auto
  have h: "(2::int) \<le> 3" "length ?X = nat 3" "\<forall>k<nat 3. length (?X ! k) = n_x self"
    "length ?U = nat 3" "\<forall>c::ode_call. length (y0 c) = length (y0 c)"
    by (simp_all add: n nth_Cons' )
  obtain I0 where I0: "Integrator_init self 3 = Inr I0" "seeded self 3 I0"
    and st: "\<forall>I. seeded self 3 I \<longrightarrow>
         (\<exists>I' calls. calculate_discretization y0 I ?X ?U 10 = Inr (I', calls)
            \<and> seeded self 3 I' \<and> length calls = nat (3 - 1)
            \<and> (\<forall>k<nat (3 - 1).
                 length (y0 (calls ! k)) = n_x self * (1 + n_x self + 2 * n_u self + 2)
               \<and> slice (y0 (calls ! k)) (fst (x_ind I)) (snd (x_ind I)) = ?X ! k
               \<and> slice (y0 (calls ! k)) (fst (A_bar_ind I)) (snd (A_bar_ind I))
                   = eye_flat (n_x self)
               \<and> slice (y0 (calls ! k)) (fst (B_bar_ind I)) (snd (B_bar_ind I))
                   = replicate (n_x self * n_u self) 0
               \<and> slice (y0 (calls ! k)) (fst (C_bar_ind I)) (snd (C_bar_ind I))
                   = replicate (n_x self * n_u self) 0
               \<and> slice (y0 (calls ! k)) (fst (S_bar_ind I)) (snd (S_bar_ind I))
                   = replicate (n_x self) 0
               \<and> slice (y0 (calls ! k)) (fst (z_bar_ind I)) (snd (z_bar_ind I))
                   = replicate (n_x self) 0
               \<and> snd (z_bar_ind I) = length (y0 (calls ! k))
               \<and> t_span (calls ! k) = (0, dt I) \<and> dt I = 1 / real_of_int (3 - 1)
               \<and> tau I (fst (t_span (calls ! k))) = 0
               \<and> tau I (snd (t_span (calls ! k))) = 1
               \<and> args (calls ! k) = (?U ! k, ?U ! Suc k, 10)))"
    using discretization_seed[OF h, of 10] by blast
  have xi: "x_ind I0 = (0, 14)"
    using I0(1) unfolding Integrator_init_eq[OF h(1)] by (auto simp: n)
  obtain I' calls where c: "calculate_discretization y0 I0 ?X ?U 10 = Inr (I', calls)"
    and s': "seeded self 3 I'"
    and l: "length calls = nat (3 - 1)"
    and k: "\<forall>k<nat (3 - 1).
                 length (y0 (calls ! k)) = n_x self * (1 + n_x self + 2 * n_u self + 2)
               \<and> slice (y0 (calls ! k)) (fst (x_ind I0)) (snd (x_ind I0)) = ?X ! k
               \<and> t_span (calls ! k) = (0, dt I0) \<and> dt I0 = 1 / real_of_int (3 - 1)
               \<and> tau I0 (fst (t_span (calls ! k))) = 0
               \<and> tau I0 (snd (t_span (calls ! k))) = 1"
    using st I0(2) by blast
  have k1: "length (y0 (calls ! 1)) = n_x self * (1 + n_x self + 2 * n_u self + 2)
               \<and> slice (y0 (calls ! 1)) (fst (x_ind I0)) (snd (x_ind I0)) = ?X ! 1
               \<and> t_span (calls ! 1) = (0, dt I0) \<and> dt I0 = 1 / real_of_int (3 - 1)
               \<and> tau I0 (fst (t_span (calls ! 1))) = 0
               \<and> tau I0 (snd (t_span (calls ! 1))) = 1"
  proof -
    have "1 < nat (3 - 1)"
      by simp
    with k show ?thesis
      by blast
  qed
  have "length calls = 2" "length (y0 (calls ! 1)) = 322"
    "slice (y0 (calls ! 1)) 0 14 = replicate 14 2" "t_span (calls ! 1) = (0, 1 / 2)"
    using l k1 by (simp_all add: n xi)
  moreover have "tau I0 (fst (t_span (calls ! 1))) = 0" "tau I0 (snd (t_span (calls ! 1))) = 1"
    using k1 by blast+
  ultimately show ?thesis
    using s h I0 c s' by blast
qed

subsection \<open>The constraints\<close>

lemma has_shape_nth: "has_shape M (r, c) \<Longrightarrow> k < c \<Longrightarrow> length (M ! k) = r"
  by (simp add: has_shape_def list_all_length)

lemma has_shape_length: "has_shape M (r, c) \<Longrightarrow> length M = c"
  by (simp add: has_shape_def)

lemma resolve_nat: "k < n \<Longrightarrow> resolve (int k) n = Some k"
  by (simp add: resolve_def)

lemma resolve_zero: "0 < n \<Longrightarrow> resolve 0 n = Some 0"
  by (simp add: resolve_def)

lemma resolve_last: "0 < n \<Longrightarrow> resolve (- 1) n = Some (n - 1)"
  by (auto simp add: resolve_def nat_diff_distrib)

lemma resolve_lit: "resolve 1 14 = Some 1" "resolve 0 14 = Some 0" "resolve 0 3 = Some 0"
  by (simp_all add: resolve_def)

lemma list_all_map_nth:
  "list_all P (map f M) \<longleftrightarrow> (\<forall>k<length M. P (f (M ! k)))"
  by (simp add: list_all_length)

lemma list_all2_map_map:
  "list_all2 R (map f M) (map g M) \<longleftrightarrow> (\<forall>k<length M. R (f (M ! k)) (g (M ! k)))"
  by (simp add: list_all2_conv_all_nth)

lemma slice_nth: "b \<le> length c \<Longrightarrow> slice c a b = map ((!) c) [a..<b]"
  by (auto simp: slice_def list_eq_iff_nth_eq)

lemma slices_state:
  assumes "length c = 14"
  shows "slice c 2 4 = [c ! 2, c ! 3]" "slice c 9 11 = [c ! 9, c ! 10]"
    "slice c 11 14 = [c ! 11, c ! 12, c ! 13]"
    "slice c (Suc 0) 4 = [c ! 1, c ! 2, c ! 3]" "slice c 4 7 = [c ! 4, c ! 5, c ! 6]"
  using assms by (simp_all add: slice_nth eval_nat_numeral)

lemma slices_control:
  assumes "length c = 3"
  shows "slice c (Suc 0) 3 = [c ! 1, c ! 2]"
  using assms by (simp_all add: slice_nth eval_nat_numeral)


lemma eval_Leaf:
  "has_shape (\<sigma> (leaf_name l)) (shape l)
     \<Longrightarrow> eval \<sigma> (Leaf l) = Some (Mat (fst (shape l)) (\<sigma> (leaf_name l)))"
  by simp

text \<open>The meaning of each constraint of the list, for an array \<open>M\<close> of the declared shape.\<close>

lemma holds_first_scalar:
  assumes "has_shape M (14, K)" "0 < K" "eval \<sigma> e = Some (Mat 14 M)"
  shows "holds \<sigma> (Eq (Index e (At 0) (At 0)) (Const c)) \<longleftrightarrow> M ! 0 ! 0 = c"
  using assms by (simp add: resolve_lit resolve_zero has_shape_length)

lemma holds_first_range:
  assumes "has_shape M (r, K)" "0 < K" "eval \<sigma> e = Some (Mat r M)"
  shows "holds \<sigma> (Eq (Index e (Range a b) (At 0)) (ConstVec v)) \<longleftrightarrow> slice (M ! 0) a b = v"
  using assms by (auto simp add: resolve_zero has_shape_length list_all2_eq[symmetric])

lemma holds_last_from:
  assumes "has_shape M (r, K)" "0 < K" "eval \<sigma> e = Some (Mat r M)"
  shows "holds \<sigma> (Eq (Index e (From a) (At (- 1))) (ConstVec v)) \<longleftrightarrow> drop a (M ! (K - 1)) = v"
  using assms by (auto simp add: resolve_last has_shape_length list_all2_eq[symmetric])

lemma holds_last_lateral:
  assumes "has_shape M (3, K)" "0 < K" "eval \<sigma> e = Some (Mat 3 M)"
  shows "holds \<sigma> (Eq (Index e (Range 1 3) (At (- 1))) (Const 0))
     \<longleftrightarrow> M ! (K - 1) ! 1 = 0 \<and> M ! (K - 1) ! 2 = 0"
proof -
  have "length (M ! (K - 1)) = 3"
    using assms(1,2) by (intro has_shape_nth[of M 3 K]) simp_all
  then show ?thesis
    using assms by (simp add: resolve_last has_shape_length slices_control)
qed

lemma holds_row_geq:
  assumes "has_shape M (14, K)" "eval \<sigma> e = Some (Mat 14 M)"
  shows "holds \<sigma> (Geq (Index e (At 0) Full) (Const c)) \<longleftrightarrow> (\<forall>k<K. c \<le> M ! k ! 0)"
  using assms by (simp add: resolve_lit list_all_map_nth has_shape_length)

lemma holds_glideslope:
  assumes "has_shape M (14, K)" "eval \<sigma> e = Some (Mat 14 M)"
  shows "holds \<sigma> (Leq (NormAxis0 (Index e (Range 2 4) Full))
                    (Div (Index e (At 1) Full) (Const t)))
     \<longleftrightarrow> t \<noteq> 0 \<and> (\<forall>k<K. linalg_norm [M ! k ! 2, M ! k ! 3] \<le> M ! k ! 1 / t)"
  using assms has_shape_nth[OF assms(1)]
  by (simp add: resolve_lit list_all2_conv_all_nth has_shape_length slices_state)

lemma holds_tilt:
  assumes "has_shape M (14, K)" "eval \<sigma> e = Some (Mat 14 M)"
  shows "holds \<sigma> (Leq (NormAxis0 (Index e (Range 9 11) Full)) (Const c))
     \<longleftrightarrow> (\<forall>k<K. linalg_norm [M ! k ! 9, M ! k ! 10] \<le> c)"
  using assms has_shape_nth[OF assms(1)]
  by (simp add: list_all_length has_shape_length slices_state)

lemma holds_rate:
  assumes "has_shape M (14, K)" "eval \<sigma> e = Some (Mat 14 M)"
  shows "holds \<sigma> (Leq (NormAxis0 (Index e (Range 11 14) Full)) (Const c))
     \<longleftrightarrow> (\<forall>k<K. linalg_norm [M ! k ! 11, M ! k ! 12, M ! k ! 13] \<le> c)"
  using assms has_shape_nth[OF assms(1)]
  by (simp add: list_all_length has_shape_length slices_state)

lemma holds_gimbal:
  assumes "has_shape M (3, K)" "eval \<sigma> e = Some (Mat 3 M)"
  shows "holds \<sigma> (Leq (NormAxis0 (Index e (Range 1 3) Full))
                    (Mul (Const c) (Index e (At 0) Full)))
     \<longleftrightarrow> (\<forall>k<K. linalg_norm [M ! k ! 1, M ! k ! 2] \<le> c * M ! k ! 0)"
  using assms has_shape_nth[OF assms(1)]
  by (simp add: resolve_lit list_all2_conv_all_nth has_shape_length slices_control)

lemma holds_max_thrust:
  assumes "has_shape M (3, K)" "eval \<sigma> e = Some (Mat 3 M)"
  shows "holds \<sigma> (Leq (NormAxis0 e) (Const c)) \<longleftrightarrow> (\<forall>k<K. linalg_norm (M ! k) \<le> c)"
  using assms by (simp add: list_all_length has_shape_length)


lemma the_scalars_map:
  "the_scalars (map (\<lambda>k. if z k then None else Some (Sc (d k))) ks)
     = (if \<exists>k\<in>set ks. z k then None else Some (map d ks))"
  by (induction ks) (auto simp add: the_scalars_def split: if_splits)

lemma eval_projection:
  assumes "has_shape UL (3, K)" "has_shape U (3, K)"
    and "eval \<sigma> p = Some (Mat 3 UL)" "eval \<sigma> e = Some (Mat 3 U)" and "k < K"
  shows "eval \<sigma> (MatMul (Div (Index p Full (At (int k))) (Norm (Index p Full (At (int k)))))
                         (Index e Full (At (int k))))
     = (if linalg_norm (UL ! k) = 0 then None
        else Some (Sc (sum_list (map2 (*) (map (\<lambda>a. a / linalg_norm (UL ! k)) (UL ! k))
                                          (U ! k)))))"
  using assms has_shape_nth[OF assms(1,5)] has_shape_nth[OF assms(2,5)]
  by (simp add: resolve_nat has_shape_length)

lemma holds_min_thrust:
  assumes "has_shape UL (3, K)" "has_shape U (3, K)"
    and "eval \<sigma> p = Some (Mat 3 UL)" "eval \<sigma> e = Some (Mat 3 U)"
  shows "holds \<sigma> (Leq (Const c) (VStack (map (\<lambda>k.
            MatMul (Div (Index p Full (At (int k))) (Norm (Index p Full (At (int k)))))
                   (Index e Full (At (int k)))) [0..<K])))
     \<longleftrightarrow> (\<forall>k<K. linalg_norm (UL ! k) \<noteq> 0
            \<and> c \<le> sum_list (map2 (*) (map (\<lambda>a. a / linalg_norm (UL ! k)) (UL ! k)) (U ! k)))"
proof -
  have m: "map (eval \<sigma>) (map (\<lambda>k.
            MatMul (Div (Index p Full (At (int k))) (Norm (Index p Full (At (int k)))))
                   (Index e Full (At (int k)))) [0..<K])
      = map (\<lambda>k. if linalg_norm (UL ! k) = 0 then None
        else Some (Sc (sum_list (map2 (*) (map (\<lambda>a. a / linalg_norm (UL ! k)) (UL ! k))
                                          (U ! k))))) [0..<K]"
    using eval_projection[OF assms] by (simp del: eval.simps)
  show ?thesis
    unfolding holds.simps eval.simps(10) m the_scalars_map
    by (auto simp add: list_all_iff)
qed


text \<open>
  The assignments that satisfy the constraints of \<open>get_constraints\<close>, for decision
  variables \<open>X\<close> of shape \<open>(14, K)\<close> and \<open>U\<close> of shape \<open>(3, K)\<close> and the parameter \<open>U_last\<close>
  of shape \<open>(3, K)\<close>.
\<close>

lemma feasible_iff:
  assumes "has_shape (\<sigma> ''X'') (14, K)" and "has_shape (\<sigma> ''U'') (3, K)"
    and "has_shape (\<sigma> ''U_last'') (3, K)" and "0 < K" and "1 \<le> length (x_init self)"
  shows "feasible \<sigma> (get_constraints self (Variable ''X'' 14 K) (Variable ''U'' 3 K) X_last_p
            (Parameter ''U_last'' 3 K))
    \<longleftrightarrow>
      (\<sigma> ''X'' ! 0 ! 0 = x_init self ! 0
       \<and> slice (\<sigma> ''X'' ! 0) 1 4 = slice (x_init self) 1 4
       \<and> slice (\<sigma> ''X'' ! 0) 4 7 = slice (x_init self) 4 7
       \<and> slice (\<sigma> ''X'' ! 0) 11 14 = slice (x_init self) 11 14
       \<and> drop 1 (\<sigma> ''X'' ! (K - 1)) = drop 1 (x_final self)
       \<and> (\<sigma> ''U'' ! (K - 1) ! 1 = 0 \<and> \<sigma> ''U'' ! (K - 1) ! 2 = 0)
       \<and> (\<forall>k<K. m_dry self \<le> \<sigma> ''X'' ! k ! 0)
       \<and> (tan_gamma_gs self \<noteq> 0
          \<and> (\<forall>k<K. linalg_norm [\<sigma> ''X'' ! k ! 2, \<sigma> ''X'' ! k ! 3]
                       \<le> \<sigma> ''X'' ! k ! 1 / tan_gamma_gs self))
       \<and> (\<forall>k<K. linalg_norm [\<sigma> ''X'' ! k ! 9, \<sigma> ''X'' ! k ! 10]
                   \<le> sqrt ((1 - cos_theta_max self) / 2))
       \<and> (\<forall>k<K. linalg_norm [\<sigma> ''X'' ! k ! 11, \<sigma> ''X'' ! k ! 12, \<sigma> ''X'' ! k ! 13]
                   \<le> w_B_max self)
       \<and> (\<forall>k<K. linalg_norm [\<sigma> ''U'' ! k ! 1, \<sigma> ''U'' ! k ! 2]
                   \<le> tan_delta_max self * \<sigma> ''U'' ! k ! 0)
       \<and> (\<forall>k<K. linalg_norm (\<sigma> ''U'' ! k) \<le> T_max self)
       \<and> (\<forall>k<K. linalg_norm (\<sigma> ''U_last'' ! k) \<noteq> 0
             \<and> T_min self \<le> sum_list (map2 (*)
                 (map (\<lambda>a. a / linalg_norm (\<sigma> ''U_last'' ! k)) (\<sigma> ''U_last'' ! k))
                 (\<sigma> ''U'' ! k))))"
proof -
  have eX: "eval \<sigma> (Leaf (Variable ''X'' 14 K)) = Some (Mat 14 (\<sigma> ''X''))"
    using assms(1) by simp
  have eU: "eval \<sigma> (Leaf (Variable ''U'' 3 K)) = Some (Mat 3 (\<sigma> ''U''))"
    using assms(2) by simp
  have eL: "eval \<sigma> (Leaf (Parameter ''U_last'' 3 K)) = Some (Mat 3 (\<sigma> ''U_last''))"
    using assms(3) by simp
  have l: "\<not> length (x_init self) < 1"
    using assms(5) by (cases "x_init self") simp_all
  show ?thesis
    unfolding feasible_def get_constraints_def Let_def
    by (simp only: l if_False sum.case list.pred_inject list_all_append append.simps shape.simps snd_conv
        holds_first_scalar[OF assms(1,4) eX] holds_first_range[OF assms(1,4) eX]
        holds_last_from[OF assms(1,4) eX] holds_last_lateral[OF assms(2,4) eU]
        holds_row_geq[OF assms(1) eX] holds_glideslope[OF assms(1) eX]
        holds_tilt[OF assms(1) eX] holds_rate[OF assms(1) eX]
        holds_gimbal[OF assms(2) eU] holds_max_thrust[OF assms(2) eU]
        holds_min_thrust[OF assms(3,2) eL eU] simp_thms conj_assoc)
qed

lemma tan_deg_pos: "0 < tan (deg2rad 20)"
proof -
  have "0 < deg2rad 20" "deg2rad 20 < pi / 2"
    by (simp_all add: deg2rad_def)
  then show ?thesis
    by (rule tan_gt_zero)
qed

text \<open>
  An assignment with two trajectory points that satisfies all constraints of the model
  built with the generator whose variates are all 1/2.
\<close>

lemma example_feasible:
  assumes "Rocket_Model_6DoF_init (\<lambda>n. 1 / 2) = Inr (self, g')"
  shows "feasible
     (\<lambda>n. if n = ''X'' then [[3, 3.5, 0, 0, - 0.75, 0, 0, 1, 0, 0, 0, 0, 0, 0],
                              [2.2, 0, 0, 0, - 0.1, 0, 0, 1, 0, 0, 0, 0, 0, 0]]
          else [[1, 0, 0], [1, 0, 0]])
     (get_constraints self (Variable ''X'' 14 2) (Variable ''U'' 3 2) X_last_p
        (Parameter ''U_last'' 3 2))"
proof -
  let ?\<sigma> = "\<lambda>n. if n = ''X'' then [[3, 3.5, 0, 0, - 0.75, 0, 0, 1, 0, 0, 0, 0, 0, 0],
                              [2.2, 0, 0, 0, - 0.1, 0, 0, 1, 0, 0, 0, 0, 0, 0 :: real]]
          else [[1, 0, 0], [1, 0, 0]]"
  obtain self' where s: "Rocket_Model_6DoF_init (\<lambda>n. 1 / 2) = Inr (self', \<lambda>n. 1 / 2)"
    and f: "x_init self' = [3.0, 3.5, 0, 0, - 0.75, 0, 0, 1, 0, 0, 0, 0, 0, 0]"
    "x_final self' = [2.2, 0, 0, 0, - 0.1, 0, 0, 1, 0, 0, 0, 0, 0, 0]"
    "m_dry self' = 2.2" "w_B_max self' = deg2rad 60" "tan_delta_max self' = tan (deg2rad 20)"
    "cos_theta_max self' = cos (deg2rad 90)" "tan_gamma_gs self' = tan (deg2rad 20)"
    "T_max self' = 5" "T_min self' = 0.3"
    using init_model_fields[of "\<lambda>n. 1 / 2"]
    by (auto simp: deg2rad_zero)
  have e: "self' = self"
    using s assms by simp
  have sh: "has_shape (?\<sigma> ''X'') (14, 2)" "has_shape (?\<sigma> ''U'') (3, 2)"
    "has_shape (?\<sigma> ''U_last'') (3, 2)" "0 < (2::nat)" "1 \<le> length (x_init self)"
    using f(1) by (simp_all add: has_shape_def e)
  have t: "0 < tan (deg2rad 20)"
    by (rule tan_deg_pos)
  have c: "cos (deg2rad 90) \<le> 1"
    by simp
  have w: "0 \<le> deg2rad 60"
    by (simp add: deg2rad_def)
  have k: "\<And>P. (\<forall>k<2::nat. P k) \<longleftrightarrow> P 0 \<and> P 1"
    by (auto simp: less_Suc_eq numeral_2_eq_2)
  show ?thesis
    unfolding feasible_iff[OF sh] k
    using t c w f unfolding e
    by (simp add: slice_def linalg_norm_def)
qed


lemma feasible_Inr:
  assumes "feasible \<sigma> (get_constraints self X_v U_v X_last_p U_last_p)"
  shows "1 \<le> length (x_init self)"
  using assms by (cases "x_init self") (simp_all add: feasible_def get_constraints_def)

text \<open>
  C6. For the model built with any generator, decision variables \<open>X\<close> of shape \<open>(14, K)\<close>
  and \<open>U\<close> of shape \<open>(3, K)\<close> and the parameter \<open>U_last\<close> of shape \<open>(3, K)\<close>: every
  assignment that satisfies the constraints of \<open>get_constraints\<close> has, at every point
  \<open>k\<close>, mass at least the dry mass 2.2, \<open>norm(r\<^sub>y, r\<^sub>z) \<le> r\<^sub>x / tan(20 deg)\<close>,
  \<open>norm(q\<^sub>2, q\<^sub>3) \<le> sqrt((1 - cos(90 deg)) / 2)\<close>, norm of the angular rate at most
  \<open>w_B_max\<close> = 60 deg, and \<open>norm(u\<^sub>y, u\<^sub>z) \<le> tan(20 deg) u\<^sub>x\<close>.
\<close>

theorem path_constraints:
  assumes "Rocket_Model_6DoF_init rng = Inr (self, rng')"
    and "has_shape (\<sigma> ''X'') (14, K)" and "has_shape (\<sigma> ''U'') (3, K)"
    and "has_shape (\<sigma> ''U_last'') (3, K)"
    and "feasible \<sigma> (get_constraints self (Variable ''X'' 14 K) (Variable ''U'' 3 K) X_last_p
            (Parameter ''U_last'' 3 K))"
  shows "m_dry self = 2.2 \<and> tan_gamma_gs self = tan (deg2rad 20)
    \<and> cos_theta_max self = cos (deg2rad 90) \<and> w_B_max self = deg2rad 60
    \<and> tan_delta_max self = tan (deg2rad 20)
    \<and> (\<forall>k<K.
          m_dry self \<le> \<sigma> ''X'' ! k ! 0
        \<and> linalg_norm [\<sigma> ''X'' ! k ! 2, \<sigma> ''X'' ! k ! 3]
            \<le> \<sigma> ''X'' ! k ! 1 / tan_gamma_gs self
        \<and> linalg_norm [\<sigma> ''X'' ! k ! 9, \<sigma> ''X'' ! k ! 10]
            \<le> sqrt ((1 - cos_theta_max self) / 2)
        \<and> linalg_norm [\<sigma> ''X'' ! k ! 11, \<sigma> ''X'' ! k ! 12, \<sigma> ''X'' ! k ! 13]
            \<le> w_B_max self
        \<and> linalg_norm [\<sigma> ''U'' ! k ! 1, \<sigma> ''U'' ! k ! 2]
            \<le> tan_delta_max self * \<sigma> ''U'' ! k ! 0)"
proof -
  obtain self' where "Rocket_Model_6DoF_init rng = Inr (self', \<lambda>n. rng (n + 10))"
    and "m_dry self' = 2.2" "w_B_max self' = deg2rad 60"
    "tan_delta_max self' = tan (deg2rad 20)"
    "cos_theta_max self' = cos (deg2rad 90)" "tan_gamma_gs self' = tan (deg2rad 20)"
    using init_model_fields[of rng] by auto
  with assms(1) have c: "m_dry self = 2.2" "w_B_max self = deg2rad 60"
    "tan_delta_max self = tan (deg2rad 20)"
    "cos_theta_max self = cos (deg2rad 90)" "tan_gamma_gs self = tan (deg2rad 20)"
    by simp_all
  have p: "m_dry self \<le> \<sigma> ''X'' ! k ! 0
        \<and> linalg_norm [\<sigma> ''X'' ! k ! 2, \<sigma> ''X'' ! k ! 3]
            \<le> \<sigma> ''X'' ! k ! 1 / tan_gamma_gs self
        \<and> linalg_norm [\<sigma> ''X'' ! k ! 9, \<sigma> ''X'' ! k ! 10]
            \<le> sqrt ((1 - cos_theta_max self) / 2)
        \<and> linalg_norm [\<sigma> ''X'' ! k ! 11, \<sigma> ''X'' ! k ! 12, \<sigma> ''X'' ! k ! 13]
            \<le> w_B_max self
        \<and> linalg_norm [\<sigma> ''U'' ! k ! 1, \<sigma> ''U'' ! k ! 2]
            \<le> tan_delta_max self * \<sigma> ''U'' ! k ! 0"
    if k: "k < K" for k
  proof -
    have K: "0 < K"
      using k by simp
    show ?thesis
      using assms(5) k
      unfolding feasible_iff[OF assms(2,3,4) K feasible_Inr[OF assms(5)]]
      by blast
  qed
  show ?thesis
    using c p by blast
qed

theorem path_constraints_witness:
  "\<exists>self g'. Rocket_Model_6DoF_init (\<lambda>n. 1 / 2) = Inr (self, g')
    \<and> has_shape [[3, 3.5, 0, 0, - 0.75, 0, 0, 1, 0, 0, 0, 0, 0, 0],
                  [2.2, 0, 0, 0, - 0.1, 0, 0, 1, 0, 0, 0, 0, 0, 0]] (14, 2)
    \<and> has_shape [[1, 0, 0], [1, 0, 0]] (3, 2)
    \<and> feasible
        (\<lambda>n. if n = ''X'' then [[3, 3.5, 0, 0, - 0.75, 0, 0, 1, 0, 0, 0, 0, 0, 0],
                                 [2.2, 0, 0, 0, - 0.1, 0, 0, 1, 0, 0, 0, 0, 0, 0]]
              else [[1, 0, 0], [1, 0, 0]])
        (get_constraints self (Variable ''X'' 14 2) (Variable ''U'' 3 2)
           (Parameter ''X_last'' 14 2) (Parameter ''U_last'' 3 2))
    \<and> m_dry self = 2.2
    \<and> m_dry self \<le> 3
    \<and> linalg_norm [0, 0] \<le> 3.5 / tan_gamma_gs self
    \<and> linalg_norm [0, 0] \<le> tan_delta_max self * 1"
proof -
  let ?\<sigma> = "\<lambda>n. if n = ''X'' then [[3, 3.5, 0, 0, - 0.75, 0, 0, 1, 0, 0, 0, 0, 0, 0],
                              [2.2, 0, 0, 0, - 0.1, 0, 0, 1, 0, 0, 0, 0, 0, 0 :: real]]
          else [[1, 0, 0], [1, 0, 0]]"
  obtain self where s: "Rocket_Model_6DoF_init (\<lambda>n. 1 / 2) = Inr (self, \<lambda>n. 1 / 2)"
    using init_model_fields[of "\<lambda>n. 1 / 2"] by auto
  have sh: "has_shape (?\<sigma> ''X'') (14, 2)" "has_shape (?\<sigma> ''U'') (3, 2)"
    "has_shape (?\<sigma> ''U_last'') (3, 2)"
    by (simp_all add: has_shape_def)
  have f: "feasible ?\<sigma> (get_constraints self (Variable ''X'' 14 2) (Variable ''U'' 3 2)
           (Parameter ''X_last'' 14 2) (Parameter ''U_last'' 3 2))"
    using s by (rule example_feasible)
  have z: "(0::nat) < 2"
    by simp
  have "m_dry self = 2.2"
    and "m_dry self \<le> ?\<sigma> ''X'' ! 0 ! 0
        \<and> linalg_norm [?\<sigma> ''X'' ! 0 ! 2, ?\<sigma> ''X'' ! 0 ! 3]
            \<le> ?\<sigma> ''X'' ! 0 ! 1 / tan_gamma_gs self
        \<and> linalg_norm [?\<sigma> ''X'' ! 0 ! 9, ?\<sigma> ''X'' ! 0 ! 10]
            \<le> sqrt ((1 - cos_theta_max self) / 2)
        \<and> linalg_norm [?\<sigma> ''X'' ! 0 ! 11, ?\<sigma> ''X'' ! 0 ! 12, ?\<sigma> ''X'' ! 0 ! 13]
            \<le> w_B_max self
        \<and> linalg_norm [?\<sigma> ''U'' ! 0 ! 1, ?\<sigma> ''U'' ! 0 ! 2]
            \<le> tan_delta_max self * ?\<sigma> ''U'' ! 0 ! 0"
    using path_constraints[OF s sh f] z by blast+
  then have "m_dry self = 2.2" "m_dry self \<le> 3"
    "linalg_norm [0, 0] \<le> 3.5 / tan_gamma_gs self"
    "linalg_norm [0, 0] \<le> tan_delta_max self * 1"
    by simp_all
  then show ?thesis
    using s sh f by (intro exI[of _ self] exI[of _ "\<lambda>n. 1 / 2"]) simp
qed


text \<open>
  C4. For decision variables \<open>X\<close> of shape \<open>(14, K)\<close> and \<open>U\<close> of shape \<open>(3, K)\<close> and the
  parameter \<open>U_last\<close> of shape \<open>(3, K)\<close>: the list returned by \<open>get_constraints\<close> contains
  the constraint \<open>norm(U, axis=0) \<le> T_max\<close> and the constraint that \<open>T_min\<close> is at most
  the stack of the products \<open>(U_last[:, k] / norm(U_last[:, k])) @ U[:, k]\<close>; no constraint
  of the list bounds a norm of a decision variable from below; and every assignment that
  satisfies the list has, at every step \<open>k\<close>, \<open>norm(u\<^sub>k) \<le> T_max\<close> and \<open>T_min\<close> at most
  the projection of \<open>u\<^sub>k\<close> on the unit direction of the previous control of step \<open>k\<close>.
\<close>

theorem thrust_bounds:
  assumes "get_constraints self (Variable ''X'' 14 K) (Variable ''U'' 3 K) X_last_p
            (Parameter ''U_last'' 3 K) = Inr cs"
    and "has_shape (\<sigma> ''X'') (14, K)" and "has_shape (\<sigma> ''U'') (3, K)"
    and "has_shape (\<sigma> ''U_last'') (3, K)"
    and "feasible \<sigma> (Inr cs)"
  shows "Leq (NormAxis0 (Leaf (Variable ''U'' 3 K))) (Const (T_max self)) \<in> set cs
    \<and> Leq (Const (T_min self))
          (VStack (map (\<lambda>k. MatMul
              (Div (Index (Leaf (Parameter ''U_last'' 3 K)) Full (At (int k)))
                   (Norm (Index (Leaf (Parameter ''U_last'' 3 K)) Full (At (int k)))))
              (Index (Leaf (Variable ''U'' 3 K)) Full (At (int k)))) [0..<K])) \<in> set cs
    \<and> (\<forall>c\<in>set cs. \<not> bounds_norm_below c)
    \<and> (\<forall>k<K. linalg_norm (\<sigma> ''U'' ! k) \<le> T_max self
          \<and> linalg_norm (\<sigma> ''U_last'' ! k) \<noteq> 0
          \<and> T_min self \<le> sum_list (map2 (*)
                 (map (\<lambda>a. a / linalg_norm (\<sigma> ''U_last'' ! k)) (\<sigma> ''U_last'' ! k))
                 (\<sigma> ''U'' ! k)))"
proof -
  have f: "feasible \<sigma> (get_constraints self (Variable ''X'' 14 K) (Variable ''U'' 3 K)
            X_last_p (Parameter ''U_last'' 3 K))"
    using assms(1,5) by simp
  have l: "\<not> length (x_init self) < 1"
    using feasible_Inr[OF f] by (cases "x_init self") simp_all
  have cs: "cs = [
            Eq (Index (Leaf (Variable ''X'' 14 K)) (At 0) (At 0)) (Const (x_init self ! 0)),
            Eq (Index (Leaf (Variable ''X'' 14 K)) (Range 1 4) (At 0))
               (ConstVec (slice (x_init self) 1 4)),
            Eq (Index (Leaf (Variable ''X'' 14 K)) (Range 4 7) (At 0))
               (ConstVec (slice (x_init self) 4 7)),
            Eq (Index (Leaf (Variable ''X'' 14 K)) (Range 11 14) (At 0))
               (ConstVec (slice (x_init self) 11 14)),
            Eq (Index (Leaf (Variable ''X'' 14 K)) (From 1) (At (- 1)))
               (ConstVec (drop 1 (x_final self))),
            Eq (Index (Leaf (Variable ''U'' 3 K)) (Range 1 3) (At (- 1))) (Const 0),
            Geq (Index (Leaf (Variable ''X'' 14 K)) (At 0) Full) (Const (m_dry self)),
            Leq (NormAxis0 (Index (Leaf (Variable ''X'' 14 K)) (Range 2 4) Full))
                (Div (Index (Leaf (Variable ''X'' 14 K)) (At 1) Full)
                     (Const (tan_gamma_gs self))),
            Leq (NormAxis0 (Index (Leaf (Variable ''X'' 14 K)) (Range 9 11) Full))
                (Const (sqrt ((1 - cos_theta_max self) / 2))),
            Leq (NormAxis0 (Index (Leaf (Variable ''X'' 14 K)) (Range 11 14) Full))
                (Const (w_B_max self)),
            Leq (NormAxis0 (Index (Leaf (Variable ''U'' 3 K)) (Range 1 3) Full))
                (Mul (Const (tan_delta_max self))
                     (Index (Leaf (Variable ''U'' 3 K)) (At 0) Full)),
            Leq (NormAxis0 (Leaf (Variable ''U'' 3 K))) (Const (T_max self)),
            Leq (Const (T_min self))
              (VStack (map (\<lambda>k. MatMul
                (Div (Index (Leaf (Parameter ''U_last'' 3 K)) Full (At (int k)))
                     (Norm (Index (Leaf (Parameter ''U_last'' 3 K)) Full (At (int k)))))
                (Index (Leaf (Variable ''U'' 3 K)) Full (At (int k)))) [0..<K]))]"
    using assms(1) l unfolding get_constraints_def Let_def
    by (simp only: if_False sum.inject append.simps shape.simps snd_conv)
  have n: "\<forall>c\<in>set cs. \<not> bounds_norm_below c"
    unfolding cs by (simp add: list_ex_iff)
  have s: "\<forall>k<K. linalg_norm (\<sigma> ''U'' ! k) \<le> T_max self
          \<and> linalg_norm (\<sigma> ''U_last'' ! k) \<noteq> 0
          \<and> T_min self \<le> sum_list (map2 (*)
                 (map (\<lambda>a. a / linalg_norm (\<sigma> ''U_last'' ! k)) (\<sigma> ''U_last'' ! k))
                 (\<sigma> ''U'' ! k))"
  proof (intro allI impI)
    fix k assume k: "k < K"
    then have K: "0 < K"
      by simp
    show "linalg_norm (\<sigma> ''U'' ! k) \<le> T_max self
          \<and> linalg_norm (\<sigma> ''U_last'' ! k) \<noteq> 0
          \<and> T_min self \<le> sum_list (map2 (*)
                 (map (\<lambda>a. a / linalg_norm (\<sigma> ''U_last'' ! k)) (\<sigma> ''U_last'' ! k))
                 (\<sigma> ''U'' ! k))"
      using f k unfolding feasible_iff[OF assms(2,3,4) K feasible_Inr[OF f]]
      by blast
  qed
  have m: "Leq (NormAxis0 (Leaf (Variable ''U'' 3 K))) (Const (T_max self)) \<in> set cs"
    "Leq (Const (T_min self))
          (VStack (map (\<lambda>k. MatMul
              (Div (Index (Leaf (Parameter ''U_last'' 3 K)) Full (At (int k)))
                   (Norm (Index (Leaf (Parameter ''U_last'' 3 K)) Full (At (int k)))))
              (Index (Leaf (Variable ''U'' 3 K)) Full (At (int k)))) [0..<K])) \<in> set cs"
    unfolding cs by simp_all
  show ?thesis
    using m n s by blast
qed


lemma feasible_is_Inr: "feasible \<sigma> r \<Longrightarrow> \<exists>cs. r = Inr cs"
  by (cases r) (simp_all add: feasible_def)

theorem thrust_bounds_witness:
  "\<exists>self g' cs. Rocket_Model_6DoF_init (\<lambda>n. 1 / 2) = Inr (self, g')
    \<and> get_constraints self (Variable ''X'' 14 2) (Variable ''U'' 3 2)
         (Parameter ''X_last'' 14 2) (Parameter ''U_last'' 3 2) = Inr cs
    \<and> has_shape [[3, 3.5, 0, 0, - 0.75, 0, 0, 1, 0, 0, 0, 0, 0, 0],
                  [2.2, 0, 0, 0, - 0.1, 0, 0, 1, 0, 0, 0, 0, 0, 0]] (14, 2)
    \<and> has_shape [[1, 0, 0], [1, 0, 0]] (3, 2)
    \<and> feasible
        (\<lambda>n. if n = ''X'' then [[3, 3.5, 0, 0, - 0.75, 0, 0, 1, 0, 0, 0, 0, 0, 0],
                                 [2.2, 0, 0, 0, - 0.1, 0, 0, 1, 0, 0, 0, 0, 0, 0]]
              else [[1, 0, 0], [1, 0, 0]]) (Inr cs)
    \<and> Leq (NormAxis0 (Leaf (Variable ''U'' 3 2))) (Const (T_max self)) \<in> set cs
    \<and> list_all (\<lambda>c. \<not> bounds_norm_below c) cs
    \<and> linalg_norm [1, 0, 0] \<le> T_max self
    \<and> T_min self \<le> sum_list (map2 (*) (map (\<lambda>a. a / linalg_norm [1, 0, 0]) [1, 0, 0])
                                         [1, 0, 0])"
proof -
  let ?\<sigma> = "\<lambda>n. if n = ''X'' then [[3, 3.5, 0, 0, - 0.75, 0, 0, 1, 0, 0, 0, 0, 0, 0],
                              [2.2, 0, 0, 0, - 0.1, 0, 0, 1, 0, 0, 0, 0, 0, 0 :: real]]
          else [[1, 0, 0], [1, 0, 0]]"
  obtain self where s: "Rocket_Model_6DoF_init (\<lambda>n. 1 / 2) = Inr (self, \<lambda>n. 1 / 2)"
    using init_model_fields[of "\<lambda>n. 1 / 2"] by auto
  have sh: "has_shape (?\<sigma> ''X'') (14, 2)" "has_shape (?\<sigma> ''U'') (3, 2)"
    "has_shape (?\<sigma> ''U_last'') (3, 2)"
    by (simp_all add: has_shape_def)
  have f: "feasible ?\<sigma> (get_constraints self (Variable ''X'' 14 2) (Variable ''U'' 3 2)
           (Parameter ''X_last'' 14 2) (Parameter ''U_last'' 3 2))"
    using s by (rule example_feasible)
  then obtain cs where cs: "get_constraints self (Variable ''X'' 14 2) (Variable ''U'' 3 2)
           (Parameter ''X_last'' 14 2) (Parameter ''U_last'' 3 2) = Inr cs"
    using feasible_is_Inr by blast
  have f': "feasible ?\<sigma> (Inr cs)"
    using f cs by simp
  have z: "(0::nat) < 2"
    by simp
  have "Leq (NormAxis0 (Leaf (Variable ''U'' 3 2))) (Const (T_max self)) \<in> set cs"
    and "\<forall>c\<in>set cs. \<not> bounds_norm_below c"
    and "linalg_norm (?\<sigma> ''U'' ! 0) \<le> T_max self
          \<and> linalg_norm (?\<sigma> ''U_last'' ! 0) \<noteq> 0
          \<and> T_min self \<le> sum_list (map2 (*)
                 (map (\<lambda>a. a / linalg_norm (?\<sigma> ''U_last'' ! 0)) (?\<sigma> ''U_last'' ! 0))
                 (?\<sigma> ''U'' ! 0))"
    using thrust_bounds[OF cs sh f'] z by blast+
  then have "Leq (NormAxis0 (Leaf (Variable ''U'' 3 2))) (Const (T_max self)) \<in> set cs"
    "list_all (\<lambda>c. \<not> bounds_norm_below c) cs"
    "linalg_norm [1, 0, 0] \<le> T_max self"
    "T_min self \<le> sum_list (map2 (*) (map (\<lambda>a. a / linalg_norm [1, 0, 0]) [1, 0, 0])
                                         [1, 0, 0])"
    by (simp_all add: list_all_iff)
  then show ?thesis
    using s cs sh f' by (intro exI[of _ self] exI[of _ "\<lambda>n. 1 / 2"] exI[of _ cs]) simp
qed

lemma list4:
  assumes "length q = 4"
  obtains a b c d :: 'a where "q = [a, b, c, d]"
  using assms by (auto simp: length_Suc_conv eval_nat_numeral)

lemma attitude_update:
  assumes "length c = 14" and "length q = 4"
  shows "length (take 7 c @ q @ drop 11 c) = 14"
    and "(take 7 c @ q @ drop 11 c) ! 0 = c ! 0"
    and "slice (take 7 c @ q @ drop 11 c) (Suc 0) 4 = slice c (Suc 0) 4"
    and "slice (take 7 c @ q @ drop 11 c) 4 7 = slice c 4 7"
    and "slice (take 7 c @ q @ drop 11 c) 11 14 = slice c 11 14"
    and "(take 7 c @ q @ drop 11 c) ! Suc 0 = c ! Suc 0"
    and "(take 7 c @ q @ drop 11 c) ! 2 = c ! 2"
    and "(take 7 c @ q @ drop 11 c) ! 3 = c ! 3"
    and "(take 7 c @ q @ drop 11 c) ! 9 = q ! 2"
    and "(take 7 c @ q @ drop 11 c) ! 10 = q ! 3"
    and "(take 7 c @ q @ drop 11 c) ! 11 = c ! 11"
    and "(take 7 c @ q @ drop 11 c) ! 12 = c ! 12"
    and "(take 7 c @ q @ drop 11 c) ! 13 = c ! 13"
proof -
  obtain x0 x1 x2 x3 x4 x5 x6 x7 x8 x9 x10 x11 x12 x13
    where c: "c = [x0, x1, x2, x3, x4, x5, x6, x7, x8, x9, x10, x11, x12, x13]"
    using assms(1) by (rule list14)
  obtain a b d e where q: "q = [a, b, d, e]"
    using assms(2) by (rule list4)
  show "length (take 7 c @ q @ drop 11 c) = 14"
    and "(take 7 c @ q @ drop 11 c) ! 0 = c ! 0"
    and "slice (take 7 c @ q @ drop 11 c) (Suc 0) 4 = slice c (Suc 0) 4"
    and "slice (take 7 c @ q @ drop 11 c) 4 7 = slice c 4 7"
    and "slice (take 7 c @ q @ drop 11 c) 11 14 = slice c 11 14"
    and "(take 7 c @ q @ drop 11 c) ! Suc 0 = c ! Suc 0"
    and "(take 7 c @ q @ drop 11 c) ! 2 = c ! 2"
    and "(take 7 c @ q @ drop 11 c) ! 3 = c ! 3"
    and "(take 7 c @ q @ drop 11 c) ! 9 = q ! 2"
    and "(take 7 c @ q @ drop 11 c) ! 10 = q ! 3"
    and "(take 7 c @ q @ drop 11 c) ! 11 = c ! 11"
    and "(take 7 c @ q @ drop 11 c) ! 12 = c ! 12"
    and "(take 7 c @ q @ drop 11 c) ! 13 = c ! 13"
    unfolding c q by (simp_all add: slice_def)
qed

lemma mass_update:
  assumes "length c = 14"
  shows "length (mf # drop 1 c) = 14"
    and "(mf # drop 1 c) ! 0 = mf"
    and "drop (Suc 0) (mf # drop 1 c) = drop (Suc 0) c"
    and "(mf # drop 1 c) ! Suc 0 = c ! Suc 0"
    and "(mf # drop 1 c) ! 2 = c ! 2"
    and "(mf # drop 1 c) ! 3 = c ! 3"
    and "(mf # drop 1 c) ! 9 = c ! 9"
    and "(mf # drop 1 c) ! 10 = c ! 10"
    and "(mf # drop 1 c) ! 11 = c ! 11"
    and "(mf # drop 1 c) ! 12 = c ! 12"
    and "(mf # drop 1 c) ! 13 = c ! 13"
proof -
  obtain x0 x1 x2 x3 x4 x5 x6 x7 x8 x9 x10 x11 x12 x13
    where c: "c = [x0, x1, x2, x3, x4, x5, x6, x7, x8, x9, x10, x11, x12, x13]"
    using assms(1) by (rule list14)
  show "length (mf # drop 1 c) = 14"
    and "(mf # drop 1 c) ! 0 = mf"
    and "drop (Suc 0) (mf # drop 1 c) = drop (Suc 0) c"
    and "(mf # drop 1 c) ! Suc 0 = c ! Suc 0"
    and "(mf # drop 1 c) ! 2 = c ! 2"
    and "(mf # drop 1 c) ! 3 = c ! 3"
    and "(mf # drop 1 c) ! 9 = c ! 9"
    and "(mf # drop 1 c) ! 10 = c ! 10"
    and "(mf # drop 1 c) ! 11 = c ! 11"
    and "(mf # drop 1 c) ! 12 = c ! 12"
    and "(mf # drop 1 c) ! 13 = c ! 13"
    unfolding c by simp_all
qed

lemma has_shape_update:
  assumes "has_shape M (r, K)" and "length c = r"
  shows "has_shape (M[k := c]) (r, K)"
  using assms set_update_subset_insert[of M k c]
  by (auto simp add: has_shape_def list_all_iff)


text \<open>
  C5. For decision variables \<open>X\<close> of shape \<open>(14, K)\<close> and \<open>U\<close> of shape \<open>(3, K)\<close>, the
  parameter \<open>U_last\<close> of shape \<open>(3, K)\<close> and \<open>K \<ge> 2\<close>, every assignment that satisfies the
  constraints of \<open>get_constraints\<close> has the mass, position, velocity and angular rate of
  \<open>x_init\<close> at the first point, has the position, velocity, attitude and angular rate of
  \<open>x_final\<close> at the last point, and has the two lateral components of the last control
  equal to zero. The attitude at the first point is free: replacing it by any quaternion
  within the tilt bound of the path constraints gives an assignment that satisfies the
  constraints. The mass at the last point is free: replacing it by any value that is at
  least the dry mass gives an assignment that satisfies the constraints.
\<close>

theorem boundary_conditions:
  assumes "has_shape (\<sigma> ''X'') (14, K)" and "has_shape (\<sigma> ''U'') (3, K)"
    and "has_shape (\<sigma> ''U_last'') (3, K)" and "2 \<le> K"
    and "feasible \<sigma> (get_constraints self (Variable ''X'' 14 K) (Variable ''U'' 3 K) X_last_p
            (Parameter ''U_last'' 3 K))"
  shows "\<sigma> ''X'' ! 0 ! 0 = x_init self ! 0
    \<and> slice (\<sigma> ''X'' ! 0) 1 4 = slice (x_init self) 1 4
    \<and> slice (\<sigma> ''X'' ! 0) 4 7 = slice (x_init self) 4 7
    \<and> slice (\<sigma> ''X'' ! 0) 11 14 = slice (x_init self) 11 14
    \<and> slice (\<sigma> ''X'' ! (K - 1)) 1 4 = slice (x_final self) 1 4
    \<and> slice (\<sigma> ''X'' ! (K - 1)) 4 7 = slice (x_final self) 4 7
    \<and> slice (\<sigma> ''X'' ! (K - 1)) 7 11 = slice (x_final self) 7 11
    \<and> slice (\<sigma> ''X'' ! (K - 1)) 11 14 = slice (x_final self) 11 14
    \<and> \<sigma> ''U'' ! (K - 1) ! 1 = 0 \<and> \<sigma> ''U'' ! (K - 1) ! 2 = 0
    \<and> (\<forall>q. length q = 4
            \<and> linalg_norm [q ! 2, q ! 3] \<le> sqrt ((1 - cos_theta_max self) / 2)
          \<longrightarrow> feasible
               (\<sigma>(''X'' := (\<sigma> ''X'')[0 := take 7 (\<sigma> ''X'' ! 0) @ q @ drop 11 (\<sigma> ''X'' ! 0)]))
               (get_constraints self (Variable ''X'' 14 K) (Variable ''U'' 3 K) X_last_p
                  (Parameter ''U_last'' 3 K)))
    \<and> (\<forall>mf. m_dry self \<le> mf
          \<longrightarrow> feasible
               (\<sigma>(''X'' := (\<sigma> ''X'')[K - 1 := mf # drop 1 (\<sigma> ''X'' ! (K - 1))]))
               (get_constraints self (Variable ''X'' 14 K) (Variable ''U'' 3 K) X_last_p
                  (Parameter ''U_last'' 3 K)))"
proof -
  let ?cs = "get_constraints self (Variable ''X'' 14 K) (Variable ''U'' 3 K) X_last_p
                  (Parameter ''U_last'' 3 K)"
  let ?X = "\<sigma> ''X''"
  have K: "0 < K" "K - 1 < K" "K - 1 \<noteq> 0" "0 \<noteq> K - 1"
    using assms(4) by simp_all
  have xi: "1 \<le> length (x_init self)"
    using assms(5) by (rule feasible_Inr)
  note iff = feasible_iff[OF _ _ _ K(1) xi, of _ X_last_p]
  have c: "\<sigma> ''X'' ! 0 ! 0 = x_init self ! 0"
       "slice (\<sigma> ''X'' ! 0) 1 4 = slice (x_init self) 1 4"
       "slice (\<sigma> ''X'' ! 0) 4 7 = slice (x_init self) 4 7"
       "slice (\<sigma> ''X'' ! 0) 11 14 = slice (x_init self) 11 14"
       "drop 1 (\<sigma> ''X'' ! (K - 1)) = drop 1 (x_final self)"
       "\<sigma> ''U'' ! (K - 1) ! 1 = 0" "\<sigma> ''U'' ! (K - 1) ! 2 = 0"
       "\<forall>k<K. m_dry self \<le> \<sigma> ''X'' ! k ! 0"
       "tan_gamma_gs self \<noteq> 0"
       "\<forall>k<K. linalg_norm [\<sigma> ''X'' ! k ! 2, \<sigma> ''X'' ! k ! 3]
                       \<le> \<sigma> ''X'' ! k ! 1 / tan_gamma_gs self"
       "\<forall>k<K. linalg_norm [\<sigma> ''X'' ! k ! 9, \<sigma> ''X'' ! k ! 10]
                   \<le> sqrt ((1 - cos_theta_max self) / 2)"
       "\<forall>k<K. linalg_norm [\<sigma> ''X'' ! k ! 11, \<sigma> ''X'' ! k ! 12, \<sigma> ''X'' ! k ! 13]
                   \<le> w_B_max self"
       "\<forall>k<K. linalg_norm [\<sigma> ''U'' ! k ! 1, \<sigma> ''U'' ! k ! 2]
                   \<le> tan_delta_max self * \<sigma> ''U'' ! k ! 0"
       "\<forall>k<K. linalg_norm (\<sigma> ''U'' ! k) \<le> T_max self"
       "\<forall>k<K. linalg_norm (\<sigma> ''U_last'' ! k) \<noteq> 0
             \<and> T_min self \<le> sum_list (map2 (*)
                 (map (\<lambda>a. a / linalg_norm (\<sigma> ''U_last'' ! k)) (\<sigma> ''U_last'' ! k))
                 (\<sigma> ''U'' ! k))"
    using assms(5) unfolding iff[OF assms(1,2,3)] by blast+
  have i0: "m_dry self \<le> ?X ! 0 ! 0"
    "linalg_norm [?X ! 0 ! 2, ?X ! 0 ! 3] \<le> ?X ! 0 ! 1 / tan_gamma_gs self"
    "linalg_norm [?X ! 0 ! 9, ?X ! 0 ! 10] \<le> sqrt ((1 - cos_theta_max self) / 2)"
    "linalg_norm [?X ! 0 ! 11, ?X ! 0 ! 12, ?X ! 0 ! 13] \<le> w_B_max self"
    using c(8,10,11,12) K(1) by blast+
  have iK: "m_dry self \<le> ?X ! (K - 1) ! 0"
    "linalg_norm [?X ! (K - 1) ! 2, ?X ! (K - 1) ! 3]
       \<le> ?X ! (K - 1) ! 1 / tan_gamma_gs self"
    "linalg_norm [?X ! (K - 1) ! 9, ?X ! (K - 1) ! 10]
       \<le> sqrt ((1 - cos_theta_max self) / 2)"
    "linalg_norm [?X ! (K - 1) ! 11, ?X ! (K - 1) ! 12, ?X ! (K - 1) ! 13] \<le> w_B_max self"
    using c(8,10,11,12) K(2) by blast+
  have l0: "length (?X ! 0) = 14" and lK: "length (?X ! (K - 1)) = 14"
    using has_shape_nth[OF assms(1)] K by simp_all
  have lf: "slice (?X ! (K - 1)) 1 4 = slice (x_final self) 1 4"
    "slice (?X ! (K - 1)) 4 7 = slice (x_final self) 4 7"
    "slice (?X ! (K - 1)) 7 11 = slice (x_final self) 7 11"
    "slice (?X ! (K - 1)) 11 14 = slice (x_final self) 11 14"
  proof -
    have d: "slice xs (Suc a) b = slice (drop 1 xs) a (b - 1)" for xs :: "real list" and a b
      by (simp add: slice_def)
    show "slice (?X ! (K - 1)) 1 4 = slice (x_final self) 1 4"
      "slice (?X ! (K - 1)) 4 7 = slice (x_final self) 4 7"
      "slice (?X ! (K - 1)) 7 11 = slice (x_final self) 7 11"
      "slice (?X ! (K - 1)) 11 14 = slice (x_final self) 11 14"
      using d[of "?X ! (K - 1)" 0 4] d[of "x_final self" 0 4]
        d[of "?X ! (K - 1)" 3 7] d[of "x_final self" 3 7]
        d[of "?X ! (K - 1)" 6 11] d[of "x_final self" 6 11]
        d[of "?X ! (K - 1)" 10 14] d[of "x_final self" 10 14] c(5)
      by (simp_all add: eval_nat_numeral)
  qed
  have free_q: "feasible (\<sigma>(''X'' := ?X[0 := take 7 (?X ! 0) @ q @ drop 11 (?X ! 0)])) ?cs"
    if q: "length q = 4"
      "linalg_norm [q ! 2, q ! 3] \<le> sqrt ((1 - cos_theta_max self) / 2)" for q
  proof -
    let ?c = "take 7 (?X ! 0) @ q @ drop 11 (?X ! 0)"
    define X' where "X' = ?X[0 := ?c]"
    note a = attitude_update[OF l0 q(1)]
    have tX: "(\<sigma>(''X'' := ?X[0 := ?c])) ''X'' = X'"
      "(\<sigma>(''X'' := ?X[0 := ?c])) ''U'' = \<sigma> ''U''"
      "(\<sigma>(''X'' := ?X[0 := ?c])) ''U_last'' = \<sigma> ''U_last''"
      by (simp_all add: X'_def)
    have sh: "has_shape ((\<sigma>(''X'' := ?X[0 := ?c])) ''X'') (14, K)"
      "has_shape ((\<sigma>(''X'' := ?X[0 := ?c])) ''U'') (3, K)"
      "has_shape ((\<sigma>(''X'' := ?X[0 := ?c])) ''U_last'') (3, K)"
      using has_shape_update[OF assms(1) a(1)] assms(2,3) by simp_all
    have n: "X' ! k = (if k = 0 then ?c else ?X ! k)" if "k < K" for k
      using that has_shape_length[OF assms(1)] by (simp add: X'_def nth_list_update)
    have n0: "X' ! 0 = ?c" "X' ! (K - Suc 0) = ?X ! (K - Suc 0)"
      using n[of 0] n[of "K - 1"] K by simp_all
    show ?thesis
      unfolding iff[OF sh] tX
      using i0 c q(2) K by (simp add: n n0 a)
  qed
  have free_m: "feasible (\<sigma>(''X'' := ?X[K - 1 := mf # drop 1 (?X ! (K - 1))])) ?cs"
    if mf: "m_dry self \<le> mf" for mf
  proof -
    define c' where "c' = mf # drop 1 (?X ! (K - 1))"
    define X' where "X' = ?X[K - 1 := c']"
    note a = mass_update[OF lK, of mf, folded c'_def]
    have tX: "(\<sigma>(''X'' := ?X[K - 1 := c'])) ''X'' = X'"
      "(\<sigma>(''X'' := ?X[K - 1 := c'])) ''U'' = \<sigma> ''U''"
      "(\<sigma>(''X'' := ?X[K - 1 := c'])) ''U_last'' = \<sigma> ''U_last''"
      by (simp_all add: X'_def)
    have sh: "has_shape ((\<sigma>(''X'' := ?X[K - 1 := c'])) ''X'') (14, K)"
      "has_shape ((\<sigma>(''X'' := ?X[K - 1 := c'])) ''U'') (3, K)"
      "has_shape ((\<sigma>(''X'' := ?X[K - 1 := c'])) ''U_last'') (3, K)"
      using has_shape_update[OF assms(1) a(1)] assms(2,3) by simp_all
    have n: "X' ! k = (if k = K - Suc 0 then c' else ?X ! k)" if "k < K" for k
      using that has_shape_length[OF assms(1)] by (simp add: X'_def nth_list_update)
    have n0: "X' ! 0 = ?X ! 0" "X' ! (K - Suc 0) = c'"
      using n[of 0] n[of "K - 1"] K by simp_all
    have "feasible (\<sigma>(''X'' := ?X[K - 1 := c'])) ?cs"
      unfolding iff[OF sh] tX
      using iK c mf K by (simp add: n n0 a)
    then show ?thesis
      unfolding c'_def .
  qed
  show ?thesis
    using c(1-4,6,7) lf free_q free_m by blast
qed


theorem boundary_conditions_witness:
  "\<exists>self g' \<sigma>. Rocket_Model_6DoF_init (\<lambda>n. 1 / 2) = Inr (self, g')
    \<and> \<sigma> = (\<lambda>n. if n = ''X'' then [[3, 3.5, 0, 0, - 0.75, 0, 0, 1, 0, 0, 0, 0, 0, 0],
                                      [2.2, 0, 0, 0, - 0.1, 0, 0, 1, 0, 0, 0, 0, 0, 0]]
                   else [[1, 0, 0], [1, 0, 0]])
    \<and> has_shape (\<sigma> ''X'') (14, 2) \<and> has_shape (\<sigma> ''U'') (3, 2)
    \<and> has_shape (\<sigma> ''U_last'') (3, 2) \<and> (2::nat) \<le> 2
    \<and> feasible \<sigma> (get_constraints self (Variable ''X'' 14 2) (Variable ''U'' 3 2)
           (Parameter ''X_last'' 14 2) (Parameter ''U_last'' 3 2))
    \<and> \<sigma> ''X'' ! 0 ! 0 = x_init self ! 0
    \<and> slice (\<sigma> ''X'' ! (2 - 1)) 7 11 = slice (x_final self) 7 11
    \<and> \<sigma> ''U'' ! (2 - 1) ! 1 = 0
    \<and> length [0, 1, 0, 0 :: real] = 4
    \<and> linalg_norm [[0, 1, 0, 0] ! 2, [0, 1, 0, 0] ! 3] \<le> sqrt ((1 - cos_theta_max self) / 2)
    \<and> feasible
         (\<sigma>(''X'' := (\<sigma> ''X'')[0 := take 7 (\<sigma> ''X'' ! 0) @ [0, 1, 0, 0]
                                        @ drop 11 (\<sigma> ''X'' ! 0)]))
         (get_constraints self (Variable ''X'' 14 2) (Variable ''U'' 3 2)
           (Parameter ''X_last'' 14 2) (Parameter ''U_last'' 3 2))
    \<and> m_dry self \<le> 2.5
    \<and> feasible
         (\<sigma>(''X'' := (\<sigma> ''X'')[2 - 1 := 2.5 # drop 1 (\<sigma> ''X'' ! (2 - 1))]))
         (get_constraints self (Variable ''X'' 14 2) (Variable ''U'' 3 2)
           (Parameter ''X_last'' 14 2) (Parameter ''U_last'' 3 2))"
proof -
  define \<sigma> :: assignment
    where "\<sigma> = (\<lambda>n. if n = ''X'' then [[3, 3.5, 0, 0, - 0.75, 0, 0, 1, 0, 0, 0, 0, 0, 0],
                                      [2.2, 0, 0, 0, - 0.1, 0, 0, 1, 0, 0, 0, 0, 0, 0]]
                   else [[1, 0, 0], [1, 0, 0]])"
  obtain self where s: "Rocket_Model_6DoF_init (\<lambda>n. 1 / 2) = Inr (self, \<lambda>n. 1 / 2)"
    and m: "m_dry self = 2.2" "cos_theta_max self = cos (deg2rad 90)"
    using init_model_fields[of "\<lambda>n. 1 / 2"] by auto
  have sh: "has_shape (\<sigma> ''X'') (14, 2)" "has_shape (\<sigma> ''U'') (3, 2)"
    "has_shape (\<sigma> ''U_last'') (3, 2)" "(2::nat) \<le> 2"
    by (simp_all add: has_shape_def \<sigma>_def)
  have f: "feasible \<sigma> (get_constraints self (Variable ''X'' 14 2) (Variable ''U'' 3 2)
           (Parameter ''X_last'' 14 2) (Parameter ''U_last'' 3 2))"
    unfolding \<sigma>_def using s by (rule example_feasible)
  have q: "length [0, 1, 0, 0 :: real] = 4"
    "linalg_norm [[0, 1, 0, 0] ! 2, [0, 1, 0, 0] ! 3] \<le> sqrt ((1 - cos_theta_max self) / 2)"
    by (simp_all add: linalg_norm_def m)
  have d: "m_dry self \<le> 2.5"
    by (simp add: m)
  show ?thesis
    using boundary_conditions[OF sh f] s sh f q d \<sigma>_def by blast
qed

subsection \<open>The Jacobians\<close>

text \<open>
  Near a nonzero mass the float quotient is the real quotient, so that the two have the
  same derivative with respect to the mass.
\<close>

lemma deriv_the_fdiv:
  assumes "t0 \<noteq> 0" and "((\<lambda>t. a t / t) has_real_derivative d) (at t0)"
  shows "((\<lambda>t. the (fdiv (a t) t)) has_real_derivative d) (at t0)"
proof -
  have "\<forall>\<^sub>F t in nhds t0. t \<noteq> 0"
    using assms(1) by (rule t1_space_nhds)
  then have "\<forall>\<^sub>F t in nhds t0. the (fdiv (a t) t) = a t / t"
    by (rule eventually_mono) (simp add: fdiv_def)
  then show ?thesis
    using assms(2) by (simp cong: DERIV_cong_ev)
qed

subsection \<open>The state Jacobian, row by row\<close>

lemma A_rows_simple:
  assumes "length x = 14" "length u = 3" "j < 14"
    and "i = 0 \<or> i = 1 \<or> i = 2 \<or> i = 3 \<or> i = 11 \<or> i = 12 \<or> i = 13"
  shows "((\<lambda>t. entry (f_func (x[j := t]) u) i 0) has_real_derivative entry (A_func x u) i j)
           (at (x ! j))"
  using assms(4) lt14[OF assms(3)] assms(1,2)
  apply (elim disjE)
  apply (simp_all add: entry_def f_func_def A_func_def Let_def)
  done

lemma A_rows_velocity:
  assumes "length x = 14" "length u = 3" "x ! 0 \<noteq> 0" "j < 14"
    and "i = 4 \<or> i = 5 \<or> i = 6"
  shows "((\<lambda>t. entry (f_func (x[j := t]) u) i 0) has_real_derivative entry (A_func x u) i j)
           (at (x ! j))"
  using assms(5) lt14[OF assms(4)] assms(1,2,3)
  apply (elim disjE)
  apply (simp_all add: entry_def f_func_def A_func_def Let_def the_fdiv)
  apply ((rule deriv_the_fdiv, simp)?,
         (auto intro!: derivative_eq_intros simp: power2_eq_square field_simps)[1])+
  done

lemma A_rows_quaternion:
  assumes "length x = 14" "length u = 3" "j < 14"
    and "i = 7 \<or> i = 8 \<or> i = 9 \<or> i = 10"
  shows "((\<lambda>t. entry (f_func (x[j := t]) u) i 0) has_real_derivative entry (A_func x u) i j)
           (at (x ! j))"
  using assms(4) lt14[OF assms(3)] assms(1,2)
  apply (elim disjE)
  apply (simp_all add: entry_def f_func_def A_func_def Let_def)
  apply (auto intro!: derivative_eq_intros)
  done

lemma A_entries:
  assumes "length x = 14" "length u = 3" "x ! 0 \<noteq> 0" "i < 14" "j < 14"
  shows "((\<lambda>t. entry (f_func (x[j := t]) u) i 0) has_real_derivative entry (A_func x u) i j)
           (at (x ! j))"
  using lt14[OF assms(4)] A_rows_simple[OF assms(1,2,5)] A_rows_velocity[OF assms(1,2,3,5)]
    A_rows_quaternion[OF assms(1,2,5)]
  by blast

lemma A_finite:
  assumes "length x = 14" "length u = 3" "x ! 0 \<noteq> 0" "i < 14" "j < 14"
  shows "finite_entry (A_func x u) i j"
  using lt14[OF assms(4)] lt14[OF assms(5)] assms(1,2,3)
  apply (elim disjE)
  apply (simp_all add: finite_entry_def A_func_def Let_def fdiv_def)
  done

subsection \<open>The control Jacobian\<close>

lemma B_rows_below:
  assumes "length x = 14" "length u = 3" "x ! 0 \<noteq> 0" "j < 3" "i < 14" "i \<noteq> 0"
  shows "((\<lambda>t. entry (f_func x (u[j := t])) i 0) has_real_derivative entry (B_func x u) i j)
           (at (u ! j))"
  using lt14[OF assms(5)] lt3[OF assms(4)] assms(1,2,3,6)
  apply (elim disjE)
  apply (simp_all add: entry_def f_func_def B_func_def Let_def the_fdiv)
  apply (auto intro!: derivative_eq_intros simp: power2_eq_square field_simps)
  done

lemma B_row_mass:
  assumes "length x = 14" "length u = 3" "u ! 0 \<noteq> 0 \<or> u ! 1 \<noteq> 0 \<or> u ! 2 \<noteq> 0" "j < 3"
  shows "((\<lambda>t. entry (f_func x (u[j := t])) 0 0) has_real_derivative entry (B_func x u) 0 j)
           (at (u ! j))"
proof -
  have pos: "0 < (u ! 0)^2 + (u ! 1)^2 + (u ! 2)^2"
    using assms(3) by (rule sq3_pos)
  show ?thesis
    using lt3[OF assms(4)] assms(1,2) pos
    apply (elim disjE)
    apply (simp_all add: entry_def f_func_def B_func_def Let_def fsqrt_def sq3_not_neg fdiv_def)
    apply (auto intro!: derivative_eq_intros simp: field_simps)
    done
qed

lemma B_finite:
  assumes "length x = 14" "length u = 3" "x ! 0 \<noteq> 0"
    "u ! 0 \<noteq> 0 \<or> u ! 1 \<noteq> 0 \<or> u ! 2 \<noteq> 0" "i < 14" "j < 3"
  shows "finite_entry (B_func x u) i j"
proof -
  have pos: "0 < (u ! 0)^2 + (u ! 1)^2 + (u ! 2)^2"
    using assms(4) by (rule sq3_pos)
  show ?thesis
    using lt14[OF assms(5)] lt3[OF assms(6)] assms(1,2,3) pos
    apply (elim disjE)
    apply (simp_all add: finite_entry_def B_func_def Let_def fdiv_def fsqrt_def sq3_not_neg)
    done
qed

text \<open>
  C1. For a state \<open>x\<close> with nonzero mass and a nonzero control \<open>u\<close>, every entry
  \<open>(i, j)\<close> of \<open>A_func(x, u)\<close> is finite and is the partial derivative of component \<open>i\<close> of
  \<open>f_func\<close> with respect to component \<open>j\<close> of the state, and every entry \<open>(i, j)\<close> of
  \<open>B_func(x, u)\<close> is finite and is the partial derivative of component \<open>i\<close> of \<open>f_func\<close>
  with respect to component \<open>j\<close> of the control.
\<close>

theorem jacobians_exact:
  assumes "length x = 14" and "length u = 3" and "x ! 0 \<noteq> 0" and "u \<noteq> [0, 0, 0]"
  shows "(\<forall>i<14. \<forall>j<14. finite_entry (A_func x u) i j \<and>
            ((\<lambda>t. entry (f_func (x[j := t]) u) i 0)
               has_real_derivative entry (A_func x u) i j) (at (x ! j)))
       \<and> (\<forall>i<14. \<forall>j<3. finite_entry (B_func x u) i j \<and>
            ((\<lambda>t. entry (f_func x (u[j := t])) i 0)
               has_real_derivative entry (B_func x u) i j) (at (u ! j)))"
proof -
  have nz: "u ! 0 \<noteq> 0 \<or> u ! 1 \<noteq> 0 \<or> u ! 2 \<noteq> 0"
    using assms(2,4) by (simp add: list3_nonzero)
  have B: "((\<lambda>t. entry (f_func x (u[j := t])) i 0)
               has_real_derivative entry (B_func x u) i j) (at (u ! j))"
    if "i < 14" "j < 3" for i j
  proof (cases "i = 0")
    case True
    then show ?thesis using B_row_mass[OF assms(1,2) nz that(2)] by simp
  next
    case False
    then show ?thesis using B_rows_below[OF assms(1,2,3) that(2,1)] by simp
  qed
  show ?thesis
    using A_entries[OF assms(1,2,3)] A_finite[OF assms(1,2,3)]
      B B_finite[OF assms(1,2,3) nz]
    by blast
qed

theorem jacobians_exact_witness:
  "length [2, 0, 0, 0, 0, 0, 0, 1, 0, 0, 0, 0, 0, 0 :: real] = 14
   \<and> length [1, 0, 0 :: real] = 3
   \<and> [2, 0, 0, 0, 0, 0, 0, 1, 0, 0, 0, 0, 0, 0 :: real] ! 0 \<noteq> 0
   \<and> [1, 0, 0 :: real] \<noteq> [0, 0, 0]
   \<and> ((\<lambda>t. entry (f_func ([2, 0, 0, 0, 0, 0, 0, 1, 0, 0, 0, 0, 0, 0][0 := t]) [1, 0, 0]) 4 0)
         has_real_derivative - (1 / 4)) (at 2)
   \<and> ((\<lambda>t. entry (f_func [2, 0, 0, 0, 0, 0, 0, 1, 0, 0, 0, 0, 0, 0] ([1, 0, 0][0 := t])) 0 0)
         has_real_derivative - (1 / 100)) (at 1)"
proof -
  let ?x = "[2, 0, 0, 0, 0, 0, 0, 1, 0, 0, 0, 0, 0, 0 :: real]"
  let ?u = "[1, 0, 0 :: real]"
  have h: "length ?x = 14" "length ?u = 3" "?x ! 0 \<noteq> 0" "?u \<noteq> [0, 0, 0]"
    by simp_all
  have n: "4 < (14::nat)" "0 < (14::nat)" "0 < (3::nat)"
    by simp_all
  have a: "entry (A_func ?x ?u) 4 0 = - (1 / 4)"
    by (simp add: entry_def A_func_def Let_def fdiv_def)
  have b: "entry (B_func ?x ?u) 0 0 = - (1 / 100)"
    by (simp add: entry_def B_func_def Let_def fdiv_def fsqrt_def)
  have "((\<lambda>t. entry (f_func (?x[0 := t]) ?u) 4 0)
           has_real_derivative entry (A_func ?x ?u) 4 0) (at (?x ! 0))"
    and "((\<lambda>t. entry (f_func ?x (?u[0 := t])) 0 0)
           has_real_derivative entry (B_func ?x ?u) 0 0) (at (?u ! 0))"
    using jacobians_exact[OF h] n by blast+
  then show ?thesis
    unfolding a b using h by simp
qed

end
